theory Spec2Isabelle
  imports Main
begin

section \<open>The database access bridge of the school ERP backend\<close>

text \<open>
  This theory embeds the generic database bridge of \<^verbatim>\<open>mcp-server/src/stdio-server.ts\<close>
  (the function \<^verbatim>\<open>handleCrudOperation\<close>, the \<^verbatim>\<open>tools/call\<close> dispatch, the
  bigint replacer and the JSON-RPC handler of the \<^verbatim>\<open>data\<close> event).  The helper
  \<^verbatim>\<open>handleCrudOperation\<close> of \<^verbatim>\<open>mcp-server/src/index.ts\<close> has the same body.
\<close>

subsection \<open>Values\<close>

text \<open>
  What \<^verbatim>\<open>JSON.parse\<close> returns.  Numbers are restricted to the integers that a
  double holds exactly and that \<^verbatim>\<open>String\<close> prints in decimal notation.  The list of a
  \<open>JObj\<close> holds the own properties of the object in the order in which
  \<^verbatim>\<open>Object.keys\<close> enumerates them, with distinct keys.  A value that may be
  \<^verbatim>\<open>undefined\<close> (an absent property, an omitted argument) is a \<open>json option\<close>,
  \<open>None\<close> standing for \<^verbatim>\<open>undefined\<close>.
\<close>

datatype json =
    JNull
  | JBool bool
  | JNum int
  | JStr string
  | JArr "json list"
  | JObj "(string \<times> json) list"

text \<open>
  The values that live at run time in a result set or in the argument of a typed Prisma
  call: the JSON values, and in addition \<^verbatim>\<open>bigint\<close> and \<^verbatim>\<open>Date\<close>.  The database
  client returns a column of 64-bit integers as \<^verbatim>\<open>bigint\<close> (\<open>VBigInt\<close>) and the
  shorter integer columns as \<^verbatim>\<open>number\<close> (\<open>VNum\<close>).  A date is represented by the text
  that its \<^verbatim>\<open>toISOString\<close> returns.
\<close>

datatype jsval =
    VNull
  | VBool bool
  | VNum int
  | VStr string
  | VBigInt int
  | VDate string
  | VArr "jsval list"
  | VObj "(string \<times> jsval) list"

fun of_json :: "json \<Rightarrow> jsval" where
  "of_json JNull = VNull"
| "of_json (JBool b) = VBool b"
| "of_json (JNum n) = VNum n"
| "of_json (JStr s) = VStr s"
| "of_json (JArr xs) = VArr (map of_json xs)"
| "of_json (JObj kvs) = VObj (map (\<lambda>(k, v). (k, of_json v)) kvs)"

text \<open>
  Exceptions.  \<open>TypeError\<close> is the error that the engine raises by itself (a property
  read on \<^verbatim>\<open>undefined\<close> or \<^verbatim>\<open>null\<close>, a call of something that is not a
  function, a spread of something that is not iterable, a bigint met by
  \<^verbatim>\<open>JSON.stringify\<close>); \<open>Error m\<close> is an \<^verbatim>\<open>Error\<close> object with message \<open>m\<close>,
  thrown by the code or by the database client.
\<close>

datatype js_error = TypeError | Error string

definition bind_sum :: "'e + 'a \<Rightarrow> ('a \<Rightarrow> 'e + 'b) \<Rightarrow> 'e + 'b" where
  "bind_sum r f = (case r of Inl e \<Rightarrow> Inl e | Inr x \<Rightarrow> f x)"

subsection \<open>Strings\<close>

definition digit_char :: "nat \<Rightarrow> char" where
  "digit_char d = ''0123456789'' ! d"

text \<open>The decimal text of a natural number, as \<^verbatim>\<open>toString\<close> and a template literal print it.\<close>

function show_nat :: "nat \<Rightarrow> string" where
  "show_nat n = (if n < 10 then [digit_char n] else show_nat (n div 10) @ [digit_char (n mod 10)])"
  by pat_completeness auto
termination
  by (relation "measure id") auto

declare show_nat.simps [simp del]

definition show_int :: "int \<Rightarrow> string" where
  "show_int i = (if i < 0 then CHR ''-'' # show_nat (nat (- i)) else show_nat (nat i))"

text \<open>The number that a text of decimal digits denotes.\<close>

definition digit_value :: "char \<Rightarrow> nat" where
  "digit_value c = of_char c - 48"

definition read_nat :: "string \<Rightarrow> nat" where
  "read_nat s = foldl (\<lambda>a c. 10 * a + digit_value c) 0 s"

text \<open>\<^verbatim>\<open>Array.prototype.join\<close> on an array of strings.\<close>

fun join :: "string \<Rightarrow> string list \<Rightarrow> string" where
  "join sep [] = []"
| "join sep [x] = x"
| "join sep (x # y # ys) = x @ sep @ join sep (y # ys)"

text \<open>
  A text is a list of bytes; the texts that the properties are about are ASCII.
  \<^verbatim>\<open>String.prototype.toLowerCase\<close> on ASCII letters; other bytes are kept.  No
  character outside ASCII is mapped by \<^verbatim>\<open>toLowerCase\<close> to a text that consists of the
  letters of an operation name, so the \<^verbatim>\<open>switch\<close> on the result is not affected.
\<close>

definition to_lower_char :: "char \<Rightarrow> char" where
  "to_lower_char c =
     (let n = (of_char c :: nat) in if 65 \<le> n \<and> n \<le> 90 then char_of (n + 32) else c)"

definition toLowerCase :: "string \<Rightarrow> string" where
  "toLowerCase s = map to_lower_char s"

text \<open>
  The text that a template literal inserts for a value: \<^verbatim>\<open>String(x)\<close>.  An array prints
  its elements separated by commas, \<^verbatim>\<open>null\<close> elements as the empty text.
\<close>

fun js_str :: "json \<Rightarrow> string" where
  "js_str JNull = ''null''"
| "js_str (JBool b) = (if b then ''true'' else ''false'')"
| "js_str (JNum n) = show_int n"
| "js_str (JStr s) = s"
| "js_str (JArr xs) = join '','' (map (\<lambda>x. if x = JNull then [] else js_str x) xs)"
| "js_str (JObj kvs) = ''[object Object]''"

definition js_string :: "json option \<Rightarrow> string" where
  "js_string x = (case x of None \<Rightarrow> ''undefined'' | Some v \<Rightarrow> js_str v)"

subsection \<open>Objects\<close>

text \<open>The test that \<^verbatim>\<open>x ? a : b\<close>, \<^verbatim>\<open>x || y\<close> and \<^verbatim>\<open>if (x)\<close> apply to a value.\<close>

fun truthy_json :: "json \<Rightarrow> bool" where
  "truthy_json JNull = False"
| "truthy_json (JBool b) = b"
| "truthy_json (JNum n) = (n \<noteq> 0)"
| "truthy_json (JStr s) = (s \<noteq> [])"
| "truthy_json (JArr xs) = True"
| "truthy_json (JObj kvs) = True"

definition truthy :: "json option \<Rightarrow> bool" where
  "truthy x = (case x of None \<Rightarrow> False | Some v \<Rightarrow> truthy_json v)"

text \<open>
  The own enumerable properties of a value: those of an object, the indices of an array
  and of a string; a number and a boolean have none.
\<close>

fun own_props :: "json \<Rightarrow> (string \<times> json) list" where
  "own_props (JObj kvs) = kvs"
| "own_props (JArr xs) = zip (map show_nat [0..<length xs]) xs"
| "own_props (JStr s) = zip (map show_nat [0..<length s]) (map (\<lambda>c. JStr [c]) s)"
| "own_props v = []"

text \<open>\<^verbatim>\<open>Object.keys\<close> and \<^verbatim>\<open>Object.values\<close> throw on \<^verbatim>\<open>undefined\<close> and \<^verbatim>\<open>null\<close>.\<close>

definition object_keys :: "json option \<Rightarrow> js_error + string list" where
  "object_keys x =
     (case x of None \<Rightarrow> Inl TypeError | Some JNull \<Rightarrow> Inl TypeError
      | Some v \<Rightarrow> Inr (map fst (own_props v)))"

definition object_values :: "json option \<Rightarrow> js_error + json list" where
  "object_values x =
     (case x of None \<Rightarrow> Inl TypeError | Some JNull \<Rightarrow> Inl TypeError
      | Some v \<Rightarrow> Inr (map snd (own_props v)))"

text \<open>
  The read \<^verbatim>\<open>x.k\<close> of a property that is none of the built-in ones (the source reads
  \<^verbatim>\<open>jsonrpc\<close>, \<^verbatim>\<open>id\<close>, \<^verbatim>\<open>method\<close>, \<^verbatim>\<open>params\<close>, \<^verbatim>\<open>name\<close>, \<^verbatim>\<open>arguments\<close>,
  \<^verbatim>\<open>query\<close>, \<^verbatim>\<open>operation\<close>, \<^verbatim>\<open>table\<close>, \<^verbatim>\<open>data\<close>, \<^verbatim>\<open>where\<close>,
  \<^verbatim>\<open>createdAt\<close>, \<^verbatim>\<open>updatedAt\<close>): it throws on \<^verbatim>\<open>undefined\<close> and \<^verbatim>\<open>null\<close>, and
  gives \<^verbatim>\<open>undefined\<close> on every value that is not an object.
\<close>

definition get_prop :: "json option \<Rightarrow> string \<Rightarrow> js_error + json option" where
  "get_prop x k =
     (case x of None \<Rightarrow> Inl TypeError | Some JNull \<Rightarrow> Inl TypeError
      | Some (JObj kvs) \<Rightarrow> Inr (map_of kvs k)
      | Some v \<Rightarrow> Inr None)"

text \<open>The spread \<^verbatim>\<open>{...x}\<close> copies the own properties; \<^verbatim>\<open>undefined\<close> and \<^verbatim>\<open>null\<close> give none.\<close>

definition spread :: "json option \<Rightarrow> (string \<times> jsval) list" where
  "spread x = (case x of None \<Rightarrow> [] | Some v \<Rightarrow> map (\<lambda>(k, w). (k, of_json w)) (own_props v))"

text \<open>
  A property written after a spread in an object literal replaces the value of an
  existing key in place and is appended otherwise.
\<close>

definition obj_set :: "(string \<times> jsval) list \<Rightarrow> string \<Rightarrow> jsval \<Rightarrow> (string \<times> jsval) list" where
  "obj_set kvs k v =
     (if k \<in> set (map fst kvs) then map (\<lambda>(k', v'). if k' = k then (k', v) else (k', v')) kvs
      else kvs @ [(k, v)])"

subsection \<open>The SQL fragments of \<^verbatim>\<open>handleCrudOperation\<close>\<close>

text \<open>
  \<^verbatim>\<open>keys.map((key, i) => `${key} = $${off + i + 1}`)\<close>: the equality terms of a
  \<^verbatim>\<open>WHERE\<close> clause (\<open>off = 0\<close> in select and delete, \<open>off\<close> the number of columns of
  \<^verbatim>\<open>data\<close> in update) and of a \<^verbatim>\<open>SET\<close> clause (\<open>off = 0\<close>).
\<close>

definition eq_terms :: "nat \<Rightarrow> string list \<Rightarrow> string list" where
  "eq_terms off keys = map (\<lambda>(i, key). key @ '' = $'' @ show_nat (off + i + 1)) (enumerate 0 keys)"

text \<open>\<^verbatim>\<open>keys.map((_, i) => `$${i + 1}`)\<close>\<close>

definition placeholders :: "string list \<Rightarrow> string list" where
  "placeholders keys = map (\<lambda>(i, key). ''$'' @ show_nat (i + 1)) (enumerate 0 keys)"

text \<open>
  \<^verbatim>\<open>where ? `WHERE ${Object.keys(where).map(...).join(" AND ")}` : ""\<close> and
  \<^verbatim>\<open>where ? Object.values(where) : []\<close>
\<close>

definition where_clause :: "nat \<Rightarrow> json option \<Rightarrow> js_error + string" where
  "where_clause off wh =
     (if truthy wh
      then bind_sum (object_keys wh) (\<lambda>ks. Inr (''WHERE '' @ join '' AND '' (eq_terms off ks)))
      else Inr [])"

definition where_values :: "json option \<Rightarrow> js_error + json list" where
  "where_values wh = (if truthy wh then object_values wh else Inr [])"

subsection \<open>The calls to the database client\<close>

text \<open>
  One constructor for each method of the Prisma client that the bridge calls, with the
  arguments as they are passed: the statement and the bound values of
  \<^verbatim>\<open>$queryRawUnsafe\<close>, the \<^verbatim>\<open>where\<close> and \<^verbatim>\<open>data\<close> of the typed calls on the
  model \<^verbatim>\<open>subject\<close>.  \<open>SubjectFindMany None\<close> is \<^verbatim>\<open>findMany(undefined)\<close>.
\<close>

datatype db_call =
    QueryRawUnsafe "json option" "json list"
  | SubjectFindMany "json option"
  | SubjectCreate "(string \<times> jsval) list"
  | SubjectUpdateMany "json option" "(string \<times> jsval) list"
  | SubjectDeleteMany "json option"

text \<open>
  The database client with the store behind it, at the moment of the call: it answers a
  call with a result or rejects it with an error.
\<close>

type_synonym gateway = "db_call \<Rightarrow> js_error + jsval"

definition sql :: "string \<Rightarrow> json option" where
  "sql s = Some (JStr s)"

text \<open>
  The call that \<^verbatim>\<open>handleCrudOperation(operation, table, data, where)\<close> makes, or the
  exception that it throws before any call.  \<open>now\<close> is the reading of the clock by
  \<^verbatim>\<open>new Date()\<close>.  Every branch of the source ends in one call to the client and
  returns what the client returns.
\<close>

definition crud_select :: "json option \<Rightarrow> json option \<Rightarrow> js_error + db_call" where
  "crud_select table wh =
     (if table = Some (JStr ''subjects'')
      then Inr (SubjectFindMany (if truthy wh then wh else None))
      else bind_sum (where_clause 0 wh) (\<lambda>selectWhereClause.
           bind_sum (where_values wh) (\<lambda>selectValues.
           Inr (QueryRawUnsafe
                  (sql (''SELECT * FROM '' @ js_string table @ '' '' @ selectWhereClause))
                  selectValues))))"

definition default_date :: "string \<Rightarrow> json option \<Rightarrow> jsval" where
  "default_date now x = (case x of None \<Rightarrow> VDate now
     | Some v \<Rightarrow> if truthy_json v then of_json v else VDate now)"

definition crud_insert :: "string \<Rightarrow> json option \<Rightarrow> json option \<Rightarrow> js_error + db_call" where
  "crud_insert now table data =
     (if table = Some (JStr ''subjects'')
      then bind_sum (get_prop data ''createdAt'') (\<lambda>createdAt.
           bind_sum (get_prop data ''updatedAt'') (\<lambda>updatedAt.
           Inr (SubjectCreate
                  (obj_set (obj_set (spread data) ''createdAt'' (default_date now createdAt))
                     ''updatedAt'' (default_date now updatedAt)))))
      else bind_sum (object_keys data) (\<lambda>keys.
           bind_sum (object_values data) (\<lambda>insertValues.
           Inr (QueryRawUnsafe
                  (sql (''INSERT INTO '' @ js_string table @ '' ('' @ join '', '' keys
                        @ '') VALUES ('' @ join '', '' (placeholders keys) @ '') RETURNING *''))
                  insertValues))))"

definition crud_update ::
  "string \<Rightarrow> json option \<Rightarrow> json option \<Rightarrow> json option \<Rightarrow> js_error + db_call" where
  "crud_update now table data wh =
     (if table = Some (JStr ''subjects'')
      then Inr (SubjectUpdateMany wh (obj_set (spread data) ''updatedAt'' (VDate now)))
      else bind_sum (object_keys data) (\<lambda>keys.
           bind_sum (where_clause (length keys) wh) (\<lambda>updateWhereClause.
           bind_sum (object_values data) (\<lambda>dataValues.
           bind_sum (where_values wh) (\<lambda>whereValues.
           Inr (QueryRawUnsafe
                  (sql (''UPDATE '' @ js_string table @ '' SET '' @ join '', '' (eq_terms 0 keys)
                        @ '' '' @ updateWhereClause @ '' RETURNING *''))
                  (dataValues @ whereValues)))))))"

definition crud_delete :: "json option \<Rightarrow> json option \<Rightarrow> js_error + db_call" where
  "crud_delete table wh =
     (if table = Some (JStr ''subjects'')
      then Inr (SubjectDeleteMany wh)
      else bind_sum (where_clause 0 wh) (\<lambda>deleteWhereClause.
           bind_sum (where_values wh) (\<lambda>deleteValues.
           Inr (QueryRawUnsafe
                  (sql (''DELETE FROM '' @ js_string table @ '' '' @ deleteWhereClause
                        @ '' RETURNING *''))
                  deleteValues))))"

definition crud_request ::
  "string \<Rightarrow> json option \<Rightarrow> json option \<Rightarrow> json option \<Rightarrow> json option \<Rightarrow> js_error + db_call" where
  "crud_request now operation table data wh =
     (case operation of
        Some (JStr opname) \<Rightarrow>
          (let lowered = toLowerCase opname in
           if lowered = ''select'' then crud_select table wh
           else if lowered = ''insert'' then crud_insert now table data
           else if lowered = ''update'' then crud_update now table data wh
           else if lowered = ''delete'' then crud_delete table wh
           else Inl (Error (''Unknown operation: '' @ opname)))
      | _ \<Rightarrow> Inl TypeError)"

definition handleCrudOperation ::
  "gateway \<Rightarrow> string \<Rightarrow> json option \<Rightarrow> json option \<Rightarrow> json option \<Rightarrow> json option
     \<Rightarrow> js_error + jsval" where
  "handleCrudOperation db now operation table data wh =
     bind_sum (crud_request now operation table data wh) db"

text \<open>The statement that a call passes to \<^verbatim>\<open>$queryRawUnsafe\<close>, if it is such a call.\<close>

definition statement_of :: "js_error + db_call \<Rightarrow> json option" where
  "statement_of r = (case r of Inr (QueryRawUnsafe q ps) \<Rightarrow> q | _ \<Rightarrow> None)"

subsection \<open>The result serializer\<close>

text \<open>
  \<^verbatim>\<open>JSON.stringify\<close> is called in two ways: with the replacer
  \<^verbatim>\<open>(key, value) => typeof value === "bigint" ? value.toString() : value\<close>, which
  returns every value that is not a bigint as it is, and with no replacer
  (\<^verbatim>\<open>JSON.stringify(result, null, 2)\<close>).  The text that \<^verbatim>\<open>JSON.stringify\<close> writes is
  represented by the JSON value that it encodes, so that \<^verbatim>\<open>JSON.parse\<close> of the text is
  that value.  A date is written through its \<^verbatim>\<open>toJSON\<close>, before the replacer sees it;
  a bigint that no replacer has turned into a text makes \<^verbatim>\<open>JSON.stringify\<close> throw.
\<close>

datatype replacer = NoReplacer | BigintToString

fun collect :: "('e + 'a) list \<Rightarrow> 'e + 'a list" where
  "collect [] = Inr []"
| "collect (r # rs) =
     (case r of Inl e \<Rightarrow> Inl e
      | Inr x \<Rightarrow> (case collect rs of Inl e \<Rightarrow> Inl e | Inr xs \<Rightarrow> Inr (x # xs)))"

fun stringify :: "replacer \<Rightarrow> jsval \<Rightarrow> js_error + json" where
  "stringify rep VNull = Inr JNull"
| "stringify rep (VBool b) = Inr (JBool b)"
| "stringify rep (VNum n) = Inr (JNum n)"
| "stringify rep (VStr s) = Inr (JStr s)"
| "stringify rep (VBigInt n) =
     (case rep of BigintToString \<Rightarrow> Inr (JStr (show_int n)) | NoReplacer \<Rightarrow> Inl TypeError)"
| "stringify rep (VDate d) = Inr (JStr d)"
| "stringify rep (VArr xs) =
     bind_sum (collect (map (stringify rep) xs)) (\<lambda>ys. Inr (JArr ys))"
| "stringify rep (VObj kvs) =
     bind_sum (collect (map (\<lambda>(k, v). bind_sum (stringify rep v) (\<lambda>j. Inr (k, j))) kvs))
       (\<lambda>props. Inr (JObj props))"

text \<open>
  \<^verbatim>\<open>JSON.parse(JSON.stringify(result, (key, value) => ...))\<close>, the serializer of the
  \<^verbatim>\<open>query_database\<close> tool and of the HTTP wrappers of \<^verbatim>\<open>index.ts\<close>.
\<close>

definition serialize :: "jsval \<Rightarrow> js_error + json" where
  "serialize result = stringify BigintToString result"

subsection \<open>The tools\<close>

text \<open>
  A template literal of the source that spans several lines: a line break, the lines,
  each indented by \<open>n\<close> blanks and ended by a line break, and \<open>m\<close> blanks before the
  closing backquote.
\<close>

definition template :: "nat \<Rightarrow> string list \<Rightarrow> nat \<Rightarrow> string" where
  "template n lines m =
     CHR 0x0A # concat (map (\<lambda>l. replicate n (CHR '' '') @ l @ [CHR 0x0A]) lines)
       @ replicate m (CHR '' '')"

definition columns_sql :: string where
  "columns_sql = template 20
     [''SELECT column_name, data_type, is_nullable, column_default'',
      ''FROM information_schema.columns'',
      ''WHERE table_name = $1 AND table_schema = 'public'' @ [CHR 0x27],
      ''ORDER BY ordinal_position''] 18"

definition tables_lines :: "string list" where
  "tables_lines =
     [''SELECT table_name'',
      ''FROM information_schema.tables'',
      ''WHERE table_schema = 'public' AND table_type = 'BASE TABLE'' @ [CHR 0x27],
      ''ORDER BY table_name'']"

text \<open>The statement of \<^verbatim>\<open>get_schema\<close> without a table, and the one of \<^verbatim>\<open>list_tables\<close>.\<close>

definition schema_tables_sql :: string where
  "schema_tables_sql = template 20 tables_lines 18"

definition list_tables_sql :: string where
  "list_tables_sql = template 18 tables_lines 16"

text \<open>
  The spread \<^verbatim>\<open>...(args.params || [])\<close> into the argument list: the elements of an
  array, the characters of a text; any other value that is not falsy is not iterable.
\<close>

definition spread_params :: "json option \<Rightarrow> js_error + json list" where
  "spread_params p =
     (if truthy p then
        (case p of Some (JArr xs) \<Rightarrow> Inr xs
         | Some (JStr s) \<Rightarrow> Inr (map (\<lambda>c. JStr [c]) s)
         | _ \<Rightarrow> Inl TypeError)
      else Inr [])"

text \<open>
  The inner \<^verbatim>\<open>switch (name)\<close> of \<^verbatim>\<open>tools/call\<close>: the value of \<^verbatim>\<open>result\<close> after
  the switch, or the exception thrown in it.
\<close>

definition call_tool :: "gateway \<Rightarrow> string \<Rightarrow> json option \<Rightarrow> json option \<Rightarrow> js_error + jsval" where
  "call_tool db now name args =
     (if name = Some (JStr ''query_database'') then
        bind_sum (get_prop args ''query'') (\<lambda>query.
        bind_sum (get_prop args ''params'') (\<lambda>params.
        bind_sum (spread_params params) (\<lambda>values.
        bind_sum (db (QueryRawUnsafe query values)) (\<lambda>result.
        bind_sum (serialize result) (\<lambda>j. Inr (of_json j))))))
      else if name = Some (JStr ''execute_crud'') then
        bind_sum (get_prop args ''operation'') (\<lambda>operation.
        bind_sum (get_prop args ''table'') (\<lambda>table.
        bind_sum (get_prop args ''data'') (\<lambda>data.
        bind_sum (get_prop args ''where'') (\<lambda>wh.
        handleCrudOperation db now operation table data wh))))
      else if name = Some (JStr ''get_schema'') then
        bind_sum (get_prop args ''table'') (\<lambda>table.
        if truthy table then db (QueryRawUnsafe (sql columns_sql) [the table])
        else db (QueryRawUnsafe (sql schema_tables_sql) []))
      else if name = Some (JStr ''list_tables'') then
        db (QueryRawUnsafe (sql list_tables_sql) [])
      else Inl (Error (''Unknown tool: '' @ js_string name)))"

subsection \<open>The JSON-RPC handler\<close>

text \<open>
  The message of an error response.  The text of a \<open>TypeError\<close> that the engine raised
  is chosen by the engine and is not empty; it is left open as \<open>EngineMessage\<close>.
\<close>

datatype message = Text string | EngineMessage

text \<open>
  The \<^verbatim>\<open>result\<close> of a response: a JSON value, or the object
  \<^verbatim>\<open>{content: [{type: "text", text: JSON.stringify(result, null, 2)}]}\<close> of a tool call,
  whose text is represented by the value that it encodes.
\<close>

datatype payload = Plain json | ToolText json

text \<open>
  A line written to the standard output: the object that \<^verbatim>\<open>sendResponse\<close> and
  \<^verbatim>\<open>sendError\<close> build.  A field that is \<open>None\<close> is absent from the line (an
  \<^verbatim>\<open>id\<close> that is \<^verbatim>\<open>undefined\<close> is dropped by \<^verbatim>\<open>JSON.stringify\<close>).
\<close>

record response =
  resp_jsonrpc :: string
  resp_id :: "json option"
  resp_result :: "payload option"
  resp_error :: "(int \<times> message) option"

definition sendResponse :: "json option \<Rightarrow> payload \<Rightarrow> response" where
  "sendResponse rid result =
     \<lparr>resp_jsonrpc = ''2.0'', resp_id = rid, resp_result = Some result, resp_error = None\<rparr>"

definition sendError :: "json option \<Rightarrow> int \<Rightarrow> message \<Rightarrow> response" where
  "sendError rid code msg =
     \<lparr>resp_jsonrpc = ''2.0'', resp_id = rid, resp_result = None, resp_error = Some (code, msg)\<rparr>"

text \<open>\<^verbatim>\<open>(error as Error).message || "Internal error"\<close>\<close>

definition error_message :: "js_error \<Rightarrow> message" where
  "error_message e =
     (case e of TypeError \<Rightarrow> EngineMessage
      | Error m \<Rightarrow> if m = [] then Text ''Internal error'' else Text m)"

definition initialize_result :: json where
  "initialize_result = JObj
     [(''protocolVersion'', JStr ''2024-11-05''),
      (''capabilities'', JObj [(''tools'', JObj [(''listChanged'', JBool False)])]),
      (''serverInfo'', JObj [(''name'', JStr ''erp-mcp-server''), (''version'', JStr ''1.0.0'')])]"

definition string_property :: "string \<Rightarrow> json" where
  "string_property description = JObj [(''type'', JStr ''string''), (''description'', JStr description)]"

definition object_property :: "string \<Rightarrow> json" where
  "object_property description = JObj [(''type'', JStr ''object''), (''description'', JStr description)]"

definition tools_list_result :: json where
  "tools_list_result = JObj [(''tools'', JArr
     [JObj [(''name'', JStr ''query_database''),
            (''description'', JStr ''Execute raw SQL queries on the ERP database''),
            (''inputSchema'', JObj
               [(''type'', JStr ''object''),
                (''properties'', JObj
                   [(''query'', string_property ''SQL query to execute''),
                    (''params'', JObj
                       [(''type'', JStr ''array''),
                        (''items'', JObj [(''type'', JStr ''string'')]),
                        (''description'', JStr ''Query parameters''),
                        (''default'', JArr [])])]),
                (''required'', JArr [JStr ''query'']),
                (''additionalProperties'', JBool False)])],
      JObj [(''name'', JStr ''execute_crud''),
            (''description'',
               JStr ''Perform CRUD operations (SELECT, INSERT, UPDATE, DELETE) on database tables''),
            (''inputSchema'', JObj
               [(''type'', JStr ''object''),
                (''properties'', JObj
                   [(''operation'', JObj
                       [(''type'', JStr ''string''),
                        (''enum'', JArr [JStr ''select'', JStr ''insert'', JStr ''update'', JStr ''delete'']),
                        (''description'', JStr ''CRUD operation type'')]),
                    (''table'', string_property ''Database table name''),
                    (''data'', object_property ''Data for INSERT/UPDATE operations''),
                    (''where'', object_property ''WHERE conditions for SELECT/UPDATE/DELETE operations'')]),
                (''required'', JArr [JStr ''operation'', JStr ''table''])])],
      JObj [(''name'', JStr ''get_schema''),
            (''description'', JStr ''Get database schema information''),
            (''inputSchema'', JObj
               [(''type'', JStr ''object''),
                (''properties'', JObj
                   [(''table'', string_property ''Specific table name (optional)'')])])],
      JObj [(''name'', JStr ''list_tables''),
            (''description'', JStr ''List all available database tables''),
            (''inputSchema'', JObj
               [(''type'', JStr ''object''),
                (''properties'', JObj [])])]])]"

text \<open>
  The check of \<^verbatim>\<open>jsonrpc\<close> and the \<^verbatim>\<open>switch\<close> on the method, which the handler of
  the standard input and the handler of \<^verbatim>\<open>POST /mcp\<close> in \<^verbatim>\<open>index.ts\<close> share but for
  the catalog of \<^verbatim>\<open>tools/list\<close>: the lines written, or the exception that leaves the
  switch.  Only the reads of the properties of \<^verbatim>\<open>params\<close> throw outside the inner
  \<^verbatim>\<open>try\<close>, and they throw before a line is written.
\<close>

definition route ::
  "json \<Rightarrow> gateway \<Rightarrow> string \<Rightarrow> json option \<Rightarrow> json option \<Rightarrow> json option \<Rightarrow> json option
     \<Rightarrow> js_error + response list" where
  "route catalog db now jsonrpc rid method params =
     (if jsonrpc \<noteq> Some (JStr ''2.0'') then Inr [sendError rid (- 32600) (Text ''Invalid Request'')]
      else if method = Some (JStr ''initialize'') then Inr [sendResponse rid (Plain initialize_result)]
      else if method = Some (JStr ''tools/list'') then Inr [sendResponse rid (Plain catalog)]
      else if method = Some (JStr ''tools/call'') then
        bind_sum (get_prop params ''name'') (\<lambda>name.
        bind_sum (get_prop params ''arguments'') (\<lambda>args.
        (case bind_sum (call_tool db now name args) (stringify NoReplacer) of
           Inr encoded \<Rightarrow> Inr [sendResponse rid (ToolText encoded)]
         | Inl err \<Rightarrow> Inr [sendError rid (- 32603) (error_message err)])))
      else Inr [sendError rid (- 32601) (Text ''Method not found'')])"

text \<open>
  The body of the outer \<^verbatim>\<open>try\<close> of the handler of the standard input, after
  \<^verbatim>\<open>JSON.parse\<close>.  The read of \<^verbatim>\<open>message.jsonrpc\<close> throws when the message is
  \<^verbatim>\<open>null\<close>; after it the reads of \<^verbatim>\<open>message.id\<close>, \<^verbatim>\<open>message.method\<close> and
  \<^verbatim>\<open>message.params\<close> do not throw.
\<close>

definition handle_message :: "gateway \<Rightarrow> string \<Rightarrow> json \<Rightarrow> js_error + response list" where
  "handle_message db now message =
     bind_sum (get_prop (Some message) ''jsonrpc'') (\<lambda>jsonrpc.
     bind_sum (get_prop (Some message) ''id'') (\<lambda>rid.
     bind_sum (get_prop (Some message) ''method'') (\<lambda>method.
     bind_sum (get_prop (Some message) ''params'') (\<lambda>params.
     route tools_list_result db now jsonrpc rid method params))))"

text \<open>
  The handler of a \<^verbatim>\<open>data\<close> event.  Its input is what \<^verbatim>\<open>JSON.parse\<close> makes of the
  chunk: \<open>None\<close> when the chunk is not JSON and \<^verbatim>\<open>JSON.parse\<close> throws.  Its output
  is the list of the lines written.
\<close>

definition on_data :: "gateway \<Rightarrow> string \<Rightarrow> json option \<Rightarrow> response list" where
  "on_data db now parsed =
     (case parsed of
        None \<Rightarrow> [sendError (Some JNull) (- 32700) (Text ''Parse error'')]
      | Some message \<Rightarrow>
          (case handle_message db now message of
             Inl err \<Rightarrow> [sendError (Some JNull) (- 32700) (Text ''Parse error'')]
           | Inr written \<Rightarrow> written))"

subsection \<open>The HTTP handlers of \<^verbatim>\<open>index.ts\<close>\<close>

text \<open>The catalog of \<^verbatim>\<open>tools/list\<close> in the handler of \<^verbatim>\<open>POST /mcp\<close>.\<close>

definition http_tools_list_result :: json where
  "http_tools_list_result = JObj [(''tools'', JArr
     [JObj [(''name'', JStr ''query_database''),
            (''description'', JStr ''Execute raw SQL queries on the ERP database''),
            (''inputSchema'', JObj
               [(''type'', JStr ''object''),
                (''properties'', JObj
                   [(''query'', string_property ''SQL query to execute''),
                    (''params'', JObj
                       [(''type'', JStr ''array''),
                        (''description'', JStr ''Query parameters'')])]),
                (''required'', JArr [JStr ''query''])])],
      JObj [(''name'', JStr ''execute_crud''),
            (''description'',
               JStr ''Perform CRUD operations (SELECT, INSERT, UPDATE, DELETE) on database tables''),
            (''inputSchema'', JObj
               [(''type'', JStr ''object''),
                (''properties'', JObj
                   [(''operation'', JObj
                       [(''type'', JStr ''string''),
                        (''enum'', JArr [JStr ''select'', JStr ''insert'', JStr ''update'', JStr ''delete'']),
                        (''description'', JStr ''CRUD operation type'')]),
                    (''table'', string_property ''Database table name''),
                    (''data'', object_property ''Data for INSERT/UPDATE operations''),
                    (''where'', object_property ''WHERE conditions for SELECT/UPDATE/DELETE operations'')]),
                (''required'', JArr [JStr ''operation'', JStr ''table''])])],
      JObj [(''name'', JStr ''get_schema''),
            (''description'', JStr ''Get database schema information''),
            (''inputSchema'', JObj
               [(''type'', JStr ''object''),
                (''properties'', JObj
                   [(''table'', string_property ''Specific table name (optional)'')])])],
      JObj [(''name'', JStr ''list_tables''),
            (''description'', JStr ''List all available database tables''),
            (''inputSchema'', JObj
               [(''type'', JStr ''object''),
                (''properties'', JObj [])])]])]"

text \<open>
  The handler of \<^verbatim>\<open>POST /mcp\<close> on a request body that is a JSON object: the JSON that
  it sends (the HTTP status is left out).  Its \<^verbatim>\<open>catch\<close> answers with the code -32603
  and \<^verbatim>\<open>req.body.id\<close>.
\<close>

definition mcp_post :: "gateway \<Rightarrow> string \<Rightarrow> (string \<times> json) list \<Rightarrow> response list" where
  "mcp_post db now body =
     (case route http_tools_list_result db now (map_of body ''jsonrpc'') (map_of body ''id'')
             (map_of body ''method'') (map_of body ''params'') of
        Inl err \<Rightarrow> [sendError (map_of body ''id'') (- 32603) (Text ''Internal error'')]
      | Inr written \<Rightarrow> written)"

text \<open>
  The insert branch of \<^verbatim>\<open>POST /api/mcp/execute\<close>, which does not call
  \<^verbatim>\<open>handleCrudOperation\<close>.  The handler answers with the status 400 when the table or
  the data is falsy, and with the status 500 when an exception is thrown; otherwise it
  makes one call to the database client.  The name of the Prisma model is derived from
  the table name in lower case: the first letter in upper case, a final \<^verbatim>\<open>s\<close> of the
  rest removed.
\<close>

datatype rest_error = Status400 string | Status500 js_error

definition to_upper_char :: "char \<Rightarrow> char" where
  "to_upper_char c =
     (let n = (of_char c :: nat) in if 97 \<le> n \<and> n \<le> 122 then char_of (n - 32) else c)"

definition model_name :: "string \<Rightarrow> string" where
  "model_name tableName =
     (case tableName of [] \<Rightarrow> []
      | c # cs \<Rightarrow> to_upper_char c # (if cs \<noteq> [] \<and> last cs = CHR ''s'' then butlast cs else cs))"

definition lift500 :: "js_error + 'a \<Rightarrow> rest_error + 'a" where
  "lift500 r = (case r of Inl e \<Rightarrow> Inl (Status500 e) | Inr x \<Rightarrow> Inr x)"

definition execute_insert :: "string \<Rightarrow> json option \<Rightarrow> json option \<Rightarrow> rest_error + db_call" where
  "execute_insert now table data =
     (if \<not> truthy table then Inl (Status400 ''Operation and table parameters are required'')
      else case table of
        Some (JStr t) \<Rightarrow>
          (let tableName = toLowerCase t in
           if \<not> truthy data
           then Inl (Status400 ''Data parameter is required for insert operation'')
           else
             bind_sum (lift500 (get_prop data ''createdAt'')) (\<lambda>createdAt.
             bind_sum (lift500 (get_prop data ''updatedAt'')) (\<lambda>updatedAt.
             if model_name tableName = ''Subject''
             then Inr (SubjectCreate
                    (obj_set (obj_set (spread data) ''createdAt'' (default_date now createdAt))
                       ''updatedAt'' (default_date now updatedAt)))
             else
               bind_sum (lift500 (object_keys data)) (\<lambda>keys.
               bind_sum (lift500 (object_values data)) (\<lambda>values.
               Inr (QueryRawUnsafe
                      (sql (''INSERT INTO '' @ tableName @ '' (''
                            @ join '', '' keys
                            @ (if \<not> truthy createdAt
                               then '', '' @ [CHR 0x22] @ ''createdAt'' @ [CHR 0x22] else [])
                            @ (if \<not> truthy updatedAt
                               then '', '' @ [CHR 0x22] @ ''updatedAt'' @ [CHR 0x22] else [])
                            @ '') VALUES (''
                            @ join '', '' (placeholders keys)
                            @ (if \<not> truthy createdAt then '', NOW()'' else [])
                            @ (if \<not> truthy updatedAt then '', NOW()'' else [])
                            @ '') RETURNING *''))
                      values))))))
      | _ \<Rightarrow> Inl (Status500 TypeError))"

text \<open>
  The handler of \<^verbatim>\<open>POST /api/langflow/crud\<close>: it passes the result of
  \<^verbatim>\<open>handleCrudOperation\<close> through the serializer and answers with it as \<^verbatim>\<open>data\<close>.
\<close>

definition langflow_crud ::
  "gateway \<Rightarrow> string \<Rightarrow> json option \<Rightarrow> json option \<Rightarrow> json option \<Rightarrow> json option
     \<Rightarrow> rest_error + json" where
  "langflow_crud db now operation table data wh =
     (if truthy operation \<and> truthy table
      then lift500 (bind_sum (handleCrudOperation db now operation table data wh) serialize)
      else Inl (Status400 ''Operation and table are required''))"

subsection \<open>Statements that differ in their layout only\<close>

text \<open>
  \<open>squeeze\<close> shortens every run of blanks outside a quoted literal to one blank.  A
  statement is \<open>plain\<close> when it is written with letters, digits, blanks, line breaks and
  the signs \<^verbatim>\<open>_ . , = * ( ) '\<close> only: it holds no comment, no quoted identifier and no
  escape.  A store is \<open>layout_blind\<close> when it answers alike two plain statements that
  differ in the length of their runs of blanks only.
\<close>

fun squeeze :: "bool \<Rightarrow> string \<Rightarrow> string" where
  "squeeze quoted [] = []"
| "squeeze quoted (c # cs) =
     (if c = CHR 0x27 then c # squeeze (\<not> quoted) cs
      else if \<not> quoted \<and> c = CHR '' '' \<and> (case cs of [] \<Rightarrow> False | d # ds \<Rightarrow> d = CHR '' '')
      then squeeze quoted cs
      else c # squeeze quoted cs)"

definition plain_char :: "char \<Rightarrow> bool" where
  "plain_char c =
     (let n = (of_char c :: nat) in
      (65 \<le> n \<and> n \<le> 90) \<or> (97 \<le> n \<and> n \<le> 122) \<or> (48 \<le> n \<and> n \<le> 57)
      \<or> c \<in> set ''_.,=*() '' \<or> c = CHR 0x27 \<or> c = CHR 0x0A)"

definition plain :: "string \<Rightarrow> bool" where
  "plain q = list_all plain_char q"

definition layout_blind :: "gateway \<Rightarrow> bool" where
  "layout_blind db =
     (\<forall>q q' values. plain q \<and> plain q' \<and> squeeze False q = squeeze False q'
        \<longrightarrow> db (QueryRawUnsafe (sql q) values) = db (QueryRawUnsafe (sql q') values))"

section \<open>Properties\<close>

subsection \<open>Evaluation rules\<close>

lemma bind_sum_Inr [simp]: "bind_sum (Inr x) f = f x"
  by (simp add: bind_sum_def)

lemma bind_sum_Inl [simp]: "bind_sum (Inl e) f = Inl e"
  by (simp add: bind_sum_def)

lemma bind_sum_eq_Inr: "bind_sum r f = Inr y \<longleftrightarrow> (\<exists>x. r = Inr x \<and> f x = Inr y)"
  by (cases r) simp_all

lemma bind_sum_InrE:
  assumes "bind_sum r f = Inr y"
  obtains x where "r = Inr x" and "f x = Inr y"
  using assms by (cases r) simp_all

lemma show_nat_digit: "n < 10 \<Longrightarrow> show_nat n = [digit_char n]"
  by (simp add: show_nat.simps)

lemma show_nat_step: "10 \<le> n \<Longrightarrow> show_nat n = show_nat (n div 10) @ [digit_char (n mod 10)]"
  by (subst show_nat.simps) simp

lemma lower_select: "toLowerCase ''select'' = ''select''"
  by (simp add: toLowerCase_def to_lower_char_def)

lemma lower_insert: "toLowerCase ''insert'' = ''insert''"
  by (simp add: toLowerCase_def to_lower_char_def)

lemma lower_update: "toLowerCase ''update'' = ''update''"
  by (simp add: toLowerCase_def to_lower_char_def)

lemma lower_delete: "toLowerCase ''delete'' = ''delete''"
  by (simp add: toLowerCase_def to_lower_char_def)

lemma request_select:
  "crud_request now (Some (JStr ''select'')) table data wh = crud_select table wh"
  by (simp add: crud_request_def lower_select)

lemma request_insert:
  "crud_request now (Some (JStr ''insert'')) table data wh = crud_insert now table data"
  by (simp add: crud_request_def lower_insert)

lemma request_update:
  "crud_request now (Some (JStr ''update'')) table data wh = crud_update now table data wh"
  by (simp add: crud_request_def lower_update)

lemma request_delete:
  "crud_request now (Some (JStr ''delete'')) table data wh = crud_delete table wh"
  by (simp add: crud_request_def lower_delete)

lemma object_keys_obj [simp]: "object_keys (Some (JObj kvs)) = Inr (map fst kvs)"
  by (simp add: object_keys_def)

lemma object_values_obj [simp]: "object_values (Some (JObj kvs)) = Inr (map snd kvs)"
  by (simp add: object_values_def)

lemma get_prop_obj [simp]: "get_prop (Some (JObj kvs)) k = Inr (map_of kvs k)"
  by (simp add: get_prop_def)

lemma truthy_obj [simp]: "truthy (Some (JObj kvs))"
  by (simp add: truthy_def)

lemma truthy_None [simp]: "\<not> truthy None"
  by (simp add: truthy_def)

lemma where_clause_obj:
  "where_clause off (Some (JObj kvs)) =
     Inr (''WHERE '' @ join '' AND '' (eq_terms off (map fst kvs)))"
  by (simp add: where_clause_def)

lemma where_clause_absent: "where_clause off None = Inr []"
  by (simp add: where_clause_def)

lemma where_values_obj: "where_values (Some (JObj kvs)) = Inr (map snd kvs)"
  by (simp add: where_values_def)

lemma where_values_absent: "where_values None = Inr []"
  by (simp add: where_values_def)

lemma length_eq_terms: "length (eq_terms off keys) = length keys"
  by (simp add: eq_terms_def)

lemma nth_eq_terms:
  "i < length keys \<Longrightarrow> eq_terms off keys ! i = keys ! i @ '' = $'' @ show_nat (off + i + 1)"
  by (simp add: eq_terms_def nth_enumerate_eq)

subsection \<open>The placeholders of the WHERE fragment\<close>

text \<open>
  Claim C3.  For a constraint set with the columns \<open>keys\<close> and the start index
  \<open>off + 1\<close>, the WHERE fragment has one equality term for each column, joined by
  \<^verbatim>\<open>AND\<close>; the term of the column at position \<open>i\<close> is that column with the
  placeholder \<open>off + 1 + i\<close>, in the order of the columns.  In an UPDATE statement on a
  table without a typed path the SET fragment uses the placeholders from 1 and the WHERE
  fragment continues after the last of them, and the values handed to the database client
  are the values of \<^verbatim>\<open>data\<close> followed by the values of \<^verbatim>\<open>where\<close>, each in the
  order of its columns.
\<close>

theorem where_fragment_placeholders:
  "length (eq_terms off keys) = length keys
   \<and> (\<forall>i < length keys. eq_terms off keys ! i = keys ! i @ '' = $'' @ show_nat (off + i + 1))
   \<and> where_clause off (Some (JObj kvs)) =
       Inr (''WHERE '' @ join '' AND '' (eq_terms off (map fst kvs)))
   \<and> (table \<noteq> Some (JStr ''subjects'') \<longrightarrow>
        crud_request now (Some (JStr ''update'')) table (Some (JObj dkvs)) (Some (JObj wkvs)) =
          Inr (QueryRawUnsafe
                (sql (''UPDATE '' @ js_string table @ '' SET ''
                      @ join '', '' (eq_terms 0 (map fst dkvs))
                      @ '' WHERE '' @ join '' AND '' (eq_terms (length dkvs) (map fst wkvs))
                      @ '' RETURNING *''))
                (map snd dkvs @ map snd wkvs)))"
  by (simp add: length_eq_terms nth_eq_terms where_clause_obj request_update crud_update_def
      where_values_obj)

theorem where_fragment_placeholders_witness:
  "eq_terms 2 [''id'', ''name''] ! 1 = ''name = $4''
   \<and> Some (JStr ''students'') \<noteq> Some (JStr ''subjects'')
   \<and> crud_request ''2024-01-01T00:00:00.000Z'' (Some (JStr ''update'')) (Some (JStr ''students''))
        (Some (JObj [(''age'', JNum 9), (''city'', JStr ''y'')]))
        (Some (JObj [(''id'', JNum 7), (''name'', JStr ''x'')])) =
       Inr (QueryRawUnsafe
             (sql ''UPDATE students SET age = $1, city = $2 WHERE id = $3 AND name = $4 RETURNING *'')
             [JNum 9, JStr ''y'', JNum 7, JStr ''x''])"
proof -
  note t = where_fragment_placeholders [of 2 "[''id'', ''name'']" "[]" "Some (JStr ''students'')"
      "''2024-01-01T00:00:00.000Z''" "[(''age'', JNum 9), (''city'', JStr ''y'')]"
      "[(''id'', JNum 7), (''name'', JStr ''x'')]"]
  have h: "Some (JStr ''students'') \<noteq> Some (JStr ''subjects'')" by simp
  have i: "(1::nat) < length [''id'', ''name'']" by simp
  from t [THEN conjunct2, THEN conjunct1, THEN spec, THEN mp, OF i]
  have a: "eq_terms 2 [''id'', ''name''] ! 1 = ''name = $4''"
    by (simp add: show_nat_digit digit_char_def)
  from t [THEN conjunct2, THEN conjunct2, THEN conjunct2, THEN mp, OF h]
  have b: "crud_request ''2024-01-01T00:00:00.000Z'' (Some (JStr ''update''))
        (Some (JStr ''students''))
        (Some (JObj [(''age'', JNum 9), (''city'', JStr ''y'')]))
        (Some (JObj [(''id'', JNum 7), (''name'', JStr ''x'')])) =
       Inr (QueryRawUnsafe
             (sql ''UPDATE students SET age = $1, city = $2 WHERE id = $3 AND name = $4 RETURNING *'')
             [JNum 9, JStr ''y'', JNum 7, JStr ''x''])"
    by (simp add: js_string_def eq_terms_def enumerate_eq_zip show_nat_digit digit_char_def upt_rec)
  from a h b show ?thesis by (intro conjI)
qed

subsection \<open>An empty \<^verbatim>\<open>where\<close> object and an absent one\<close>



subsection \<open>Update and delete with an empty \<^verbatim>\<open>where\<close> object\<close>

text \<open>
  Claim C1 as stated fails: an update with data and the empty \<^verbatim>\<open>where\<close> object, and a
  delete with the empty \<^verbatim>\<open>where\<close> object, throw nothing and hand a statement to the
  database client.
\<close>

theorem unguarded_empty_where_counterexample:
  "crud_request ''2024-01-01T00:00:00.000Z'' (Some (JStr ''update'')) (Some (JStr ''students''))
      (Some (JObj [(''name'', JStr ''x'')])) (Some (JObj [])) =
     Inr (QueryRawUnsafe (sql ''UPDATE students SET name = $1 WHERE  RETURNING *'') [JStr ''x''])
   \<and> crud_request ''2024-01-01T00:00:00.000Z'' (Some (JStr ''delete'')) (Some (JStr ''students''))
      None (Some (JObj [])) =
     Inr (QueryRawUnsafe (sql ''DELETE FROM students WHERE  RETURNING *'') [])"
  by (simp add: request_update request_delete crud_update_def crud_delete_def where_clause_obj
      where_values_obj eq_terms_def js_string_def enumerate_eq_zip show_nat_digit digit_char_def)

text \<open>
  Claim C1, amended.  \<^verbatim>\<open>handleCrudOperation\<close> has no guard on \<^verbatim>\<open>where\<close>: an update
  whose data is an object and a delete, each with the empty \<^verbatim>\<open>where\<close> object, reach the
  database client, and their outcome is the answer of the client.  On the table
  \<^verbatim>\<open>subjects\<close> the call is \<^verbatim>\<open>updateMany\<close> or \<^verbatim>\<open>deleteMany\<close> with the empty
  \<^verbatim>\<open>where\<close>; on any other table it is the statement with the keyword \<^verbatim>\<open>WHERE\<close> and
  no condition.
\<close>

theorem empty_where_reaches_gateway:
  "handleCrudOperation db now (Some (JStr ''update'')) table (Some (JObj dkvs)) (Some (JObj [])) =
     db (if table = Some (JStr ''subjects'')
         then SubjectUpdateMany (Some (JObj []))
                (obj_set (spread (Some (JObj dkvs))) ''updatedAt'' (VDate now))
         else QueryRawUnsafe (sql (''UPDATE '' @ js_string table @ '' SET ''
                @ join '', '' (eq_terms 0 (map fst dkvs)) @ '' WHERE  RETURNING *'')) (map snd dkvs))
   \<and> handleCrudOperation db now (Some (JStr ''delete'')) table data (Some (JObj [])) =
     db (if table = Some (JStr ''subjects'')
         then SubjectDeleteMany (Some (JObj []))
         else QueryRawUnsafe (sql (''DELETE FROM '' @ js_string table @ '' WHERE  RETURNING *'')) [])"
  by (simp add: handleCrudOperation_def request_update request_delete crud_update_def
      crud_delete_def where_clause_obj where_values_obj eq_terms_def)

theorem empty_where_reaches_gateway_witness:
  "handleCrudOperation (\<lambda>c. Inr (VArr [])) ''2024-01-01T00:00:00.000Z'' (Some (JStr ''delete''))
     (Some (JStr ''subjects'')) None (Some (JObj [])) = Inr (VArr [])
   \<and> handleCrudOperation (\<lambda>c. case c of SubjectDeleteMany w \<Rightarrow> Inr (VObj [(''count'', VNum 3)])
                               | _ \<Rightarrow> Inl (Error ''syntax error''))
       ''2024-01-01T00:00:00.000Z'' (Some (JStr ''delete'')) (Some (JStr ''subjects'')) None
       (Some (JObj [])) = Inr (VObj [(''count'', VNum 3)])"
proof -
  from empty_where_reaches_gateway [of "\<lambda>c. Inr (VArr [])" "''2024-01-01T00:00:00.000Z''"
      "Some (JStr ''subjects'')" "[]" None]
  have a: "handleCrudOperation (\<lambda>c. Inr (VArr [])) ''2024-01-01T00:00:00.000Z''
     (Some (JStr ''delete'')) (Some (JStr ''subjects'')) None (Some (JObj [])) = Inr (VArr [])"
    by simp
  from empty_where_reaches_gateway [of
      "\<lambda>c. case c of SubjectDeleteMany w \<Rightarrow> Inr (VObj [(''count'', VNum 3)])
           | _ \<Rightarrow> Inl (Error ''syntax error'')"
      "''2024-01-01T00:00:00.000Z''" "Some (JStr ''subjects'')" "[]" None]
  have b: "handleCrudOperation (\<lambda>c. case c of SubjectDeleteMany w \<Rightarrow> Inr (VObj [(''count'', VNum 3)])
                               | _ \<Rightarrow> Inl (Error ''syntax error''))
       ''2024-01-01T00:00:00.000Z'' (Some (JStr ''delete'')) (Some (JStr ''subjects'')) None
       (Some (JObj [])) = Inr (VObj [(''count'', VNum 3)])"
    by simp
  from a b show ?thesis by (intro conjI)
qed

subsection \<open>Identifiers and values in the statement\<close>

text \<open>
  Claim C2 as stated fails: a table name with a blank and a semicolon and a column name
  with a quote and a blank are not rejected; they are written into the statement as they
  are, and the statement is handed to the database client.
\<close>

theorem unvalidated_identifier_counterexample:
  "crud_request ''2024-01-01T00:00:00.000Z'' (Some (JStr ''select''))
      (Some (JStr ''students; DROP TABLE users'')) None (Some (JObj [(''a' b'', JNum 1)])) =
     Inr (QueryRawUnsafe (sql ''SELECT * FROM students; DROP TABLE users WHERE a' b = $1'')
            [JNum 1])"
  by (simp add: request_select crud_select_def where_clause_obj where_values_obj eq_terms_def
      js_string_def enumerate_eq_zip show_nat_digit digit_char_def)

lemma statement_of_Inl: "statement_of (Inl e) = None"
  by (simp add: statement_of_def)

lemma statement_of_select:
  "statement_of (crud_select table (Some (JObj w))) =
     (if table = Some (JStr ''subjects'') then None
      else sql (''SELECT * FROM '' @ js_string table @ '' WHERE ''
                @ join '' AND '' (eq_terms 0 (map fst w))))"
  by (simp add: crud_select_def where_clause_obj where_values_obj statement_of_def)

lemma statement_of_delete:
  "statement_of (crud_delete table (Some (JObj w))) =
     (if table = Some (JStr ''subjects'') then None
      else sql (''DELETE FROM '' @ js_string table @ '' WHERE ''
                @ join '' AND '' (eq_terms 0 (map fst w)) @ '' RETURNING *''))"
  by (simp add: crud_delete_def where_clause_obj where_values_obj statement_of_def)

lemma statement_of_insert:
  "statement_of (crud_insert now table (Some (JObj d))) =
     (if table = Some (JStr ''subjects'') then None
      else sql (''INSERT INTO '' @ js_string table @ '' ('' @ join '', '' (map fst d)
                @ '') VALUES ('' @ join '', '' (placeholders (map fst d)) @ '') RETURNING *''))"
  by (simp add: crud_insert_def statement_of_def)

lemma statement_of_update:
  "statement_of (crud_update now table (Some (JObj d)) (Some (JObj w))) =
     (if table = Some (JStr ''subjects'') then None
      else sql (''UPDATE '' @ js_string table @ '' SET '' @ join '', '' (eq_terms 0 (map fst d))
                @ '' WHERE '' @ join '' AND '' (eq_terms (length d) (map fst w))
                @ '' RETURNING *''))"
  by (simp add: crud_update_def where_clause_obj where_values_obj statement_of_def)

lemma generic_statements:
  assumes "table \<noteq> Some (JStr ''subjects'')"
  shows "crud_request now (Some (JStr ''select'')) table data (Some (JObj w)) =
       Inr (QueryRawUnsafe (sql (''SELECT * FROM '' @ js_string table @ '' WHERE ''
              @ join '' AND '' (eq_terms 0 (map fst w)))) (map snd w))
   \<and> crud_request now (Some (JStr ''insert'')) table (Some (JObj d)) wh =
       Inr (QueryRawUnsafe (sql (''INSERT INTO '' @ js_string table @ '' ('' @ join '', '' (map fst d)
              @ '') VALUES ('' @ join '', '' (placeholders (map fst d)) @ '') RETURNING *''))
              (map snd d))
   \<and> crud_request now (Some (JStr ''update'')) table (Some (JObj d)) (Some (JObj w)) =
       Inr (QueryRawUnsafe (sql (''UPDATE '' @ js_string table @ '' SET ''
              @ join '', '' (eq_terms 0 (map fst d))
              @ '' WHERE '' @ join '' AND '' (eq_terms (length d) (map fst w)) @ '' RETURNING *''))
              (map snd d @ map snd w))
   \<and> crud_request now (Some (JStr ''delete'')) table data (Some (JObj w)) =
       Inr (QueryRawUnsafe (sql (''DELETE FROM '' @ js_string table @ '' WHERE ''
              @ join '' AND '' (eq_terms 0 (map fst w)) @ '' RETURNING *'')) (map snd w))"
  using assms
  by (simp add: request_select request_insert request_update request_delete crud_select_def
      crud_insert_def crud_update_def crud_delete_def where_clause_obj where_values_obj)

lemma statement_independent_of_values:
  assumes dk: "map fst d = map fst d'" and wk: "map fst w = map fst w'"
  shows "statement_of (crud_request now operation table (Some (JObj d)) (Some (JObj w))) =
     statement_of (crud_request now operation table (Some (JObj d')) (Some (JObj w')))"
proof -
  from dk have len: "length d = length d'" by (metis length_map)
  have s: "statement_of (crud_select table (Some (JObj w))) =
      statement_of (crud_select table (Some (JObj w')))"
    using wk by (simp add: statement_of_select)
  have i: "statement_of (crud_insert now table (Some (JObj d))) =
      statement_of (crud_insert now table (Some (JObj d')))"
    using dk by (simp add: statement_of_insert)
  have u: "statement_of (crud_update now table (Some (JObj d)) (Some (JObj w))) =
      statement_of (crud_update now table (Some (JObj d')) (Some (JObj w')))"
    using dk wk len by (simp add: statement_of_update)
  have e: "statement_of (crud_delete table (Some (JObj w))) =
      statement_of (crud_delete table (Some (JObj w')))"
    using wk by (simp add: statement_of_delete)
  show ?thesis
  proof (cases operation)
    case None
    then show ?thesis by (simp add: crud_request_def)
  next
    case (Some v)
    then show ?thesis
      using s i u e by (cases v) (simp_all add: crud_request_def Let_def)
  qed
qed

text \<open>
  Claim C2, amended.  No syntax check is applied to an identifier: on a table without a
  typed path, whatever the table name and the column names of \<^verbatim>\<open>data\<close> and
  \<^verbatim>\<open>where\<close> are, no error is raised and they are written into the statement as they
  are.  The values of \<^verbatim>\<open>data\<close> and \<^verbatim>\<open>where\<close> are not written into the statement:
  they are the bound values of the call, in the order of the columns, and two requests
  with the same operation, table and column names have the same statement whatever their
  values.
\<close>

theorem identifiers_unchecked_values_bound:
  "(table \<noteq> Some (JStr ''subjects'') \<longrightarrow>
       crud_request now (Some (JStr ''select'')) table data (Some (JObj w)) =
         Inr (QueryRawUnsafe (sql (''SELECT * FROM '' @ js_string table @ '' WHERE ''
                @ join '' AND '' (eq_terms 0 (map fst w)))) (map snd w))
     \<and> crud_request now (Some (JStr ''insert'')) table (Some (JObj d)) wh =
         Inr (QueryRawUnsafe (sql (''INSERT INTO '' @ js_string table @ '' (''
                @ join '', '' (map fst d) @ '') VALUES (''
                @ join '', '' (placeholders (map fst d)) @ '') RETURNING *'')) (map snd d))
     \<and> crud_request now (Some (JStr ''update'')) table (Some (JObj d)) (Some (JObj w)) =
         Inr (QueryRawUnsafe (sql (''UPDATE '' @ js_string table @ '' SET ''
                @ join '', '' (eq_terms 0 (map fst d))
                @ '' WHERE '' @ join '' AND '' (eq_terms (length d) (map fst w))
                @ '' RETURNING *'')) (map snd d @ map snd w))
     \<and> crud_request now (Some (JStr ''delete'')) table data (Some (JObj w)) =
         Inr (QueryRawUnsafe (sql (''DELETE FROM '' @ js_string table @ '' WHERE ''
                @ join '' AND '' (eq_terms 0 (map fst w)) @ '' RETURNING *'')) (map snd w)))
   \<and> (map fst d = map fst d' \<and> map fst w = map fst w' \<longrightarrow>
       statement_of (crud_request now operation table (Some (JObj d)) (Some (JObj w))) =
       statement_of (crud_request now operation table (Some (JObj d')) (Some (JObj w'))))"
proof (intro conjI impI)
  assume g: "table \<noteq> Some (JStr ''subjects'')"
  note t = generic_statements [OF g, of now data w d wh]
  from t show "crud_request now (Some (JStr ''select'')) table data (Some (JObj w)) =
         Inr (QueryRawUnsafe (sql (''SELECT * FROM '' @ js_string table @ '' WHERE ''
                @ join '' AND '' (eq_terms 0 (map fst w)))) (map snd w))"
    by (rule conjunct1)
  from t show "crud_request now (Some (JStr ''insert'')) table (Some (JObj d)) wh =
         Inr (QueryRawUnsafe (sql (''INSERT INTO '' @ js_string table @ '' (''
                @ join '', '' (map fst d) @ '') VALUES (''
                @ join '', '' (placeholders (map fst d)) @ '') RETURNING *'')) (map snd d))"
    by (elim conjE)
  from t show "crud_request now (Some (JStr ''update'')) table (Some (JObj d)) (Some (JObj w)) =
         Inr (QueryRawUnsafe (sql (''UPDATE '' @ js_string table @ '' SET ''
                @ join '', '' (eq_terms 0 (map fst d))
                @ '' WHERE '' @ join '' AND '' (eq_terms (length d) (map fst w))
                @ '' RETURNING *'')) (map snd d @ map snd w))"
    by (elim conjE)
  from t show "crud_request now (Some (JStr ''delete'')) table data (Some (JObj w)) =
         Inr (QueryRawUnsafe (sql (''DELETE FROM '' @ js_string table @ '' WHERE ''
                @ join '' AND '' (eq_terms 0 (map fst w)) @ '' RETURNING *'')) (map snd w))"
    by (elim conjE)
next
  assume "map fst d = map fst d' \<and> map fst w = map fst w'"
  then have "map fst d = map fst d'" and "map fst w = map fst w'" by simp_all
  then show "statement_of (crud_request now operation table (Some (JObj d)) (Some (JObj w))) =
       statement_of (crud_request now operation table (Some (JObj d')) (Some (JObj w')))"
    by (rule statement_independent_of_values)
qed

theorem identifiers_unchecked_values_bound_witness:
  "Some (JStr ''my table'') \<noteq> Some (JStr ''subjects'')
   \<and> crud_request ''2024-01-01T00:00:00.000Z'' (Some (JStr ''delete'')) (Some (JStr ''my table''))
        None (Some (JObj [(''k;'', JStr ''v'')])) =
       Inr (QueryRawUnsafe (sql ''DELETE FROM my table WHERE k; = $1 RETURNING *'') [JStr ''v''])
   \<and> statement_of (crud_request ''2024-01-01T00:00:00.000Z'' (Some (JStr ''delete''))
        (Some (JStr ''my table'')) (Some (JObj [])) (Some (JObj [(''k;'', JStr ''v'')]))) =
     statement_of (crud_request ''2024-01-01T00:00:00.000Z'' (Some (JStr ''delete''))
        (Some (JStr ''my table'')) (Some (JObj [])) (Some (JObj [(''k;'', JStr '' OR 1 = 1'')])))"
proof -
  have h: "Some (JStr ''my table'') \<noteq> Some (JStr ''subjects'')" by simp
  have k: "map fst ([] :: (string \<times> json) list) = map fst ([] :: (string \<times> json) list)
      \<and> map fst [(''k;'', JStr ''v'')] = map fst [(''k;'', JStr '' OR 1 = 1'')]"
    by simp
  note t = identifiers_unchecked_values_bound [of "Some (JStr ''my table'')"
      "''2024-01-01T00:00:00.000Z''" None "[(''k;'', JStr ''v'')]" "[]" None "[]"
      "[(''k;'', JStr '' OR 1 = 1'')]" "Some (JStr ''delete'')"]
  from t [THEN conjunct1, THEN mp, OF h]
  have a: "crud_request ''2024-01-01T00:00:00.000Z'' (Some (JStr ''delete''))
        (Some (JStr ''my table'')) None (Some (JObj [(''k;'', JStr ''v'')])) =
       Inr (QueryRawUnsafe (sql ''DELETE FROM my table WHERE k; = $1 RETURNING *'') [JStr ''v''])"
    by (simp add: js_string_def eq_terms_def enumerate_eq_zip show_nat_digit digit_char_def)
  note b = t [THEN conjunct2, THEN mp, OF k]
  from h a b show ?thesis by (intro conjI)
qed

subsection \<open>Insert\<close>

lemma map_of_replace:
  "map_of (map (\<lambda>(k', v'). if k' = k then (k', v) else (k', v')) kvs) k' =
     (if k' = k then (if k \<in> set (map fst kvs) then Some v else None) else map_of kvs k')"
  by (induction kvs) (force+)

lemma map_of_obj_set: "map_of (obj_set kvs k v) k' = (if k' = k then Some v else map_of kvs k')"
proof (cases "k \<in> set (map fst kvs)")
  case True
  then show ?thesis
    unfolding obj_set_def by (simp only: map_of_replace if_True)
next
  case False
  then have "map_of kvs k = None"
    by (simp add: map_of_eq_None_iff)
  with False show ?thesis
    by (simp add: obj_set_def map_add_def split: option.splits)
qed

lemma map_of_spread_obj: "map_of (spread (Some (JObj d))) k = map_option of_json (map_of d k)"
  by (simp add: spread_def map_of_map)

lemma default_date_absent: "default_date now None = VDate now"
  by (simp add: default_date_def)

lemma lower_students: "toLowerCase ''students'' = ''students''"
  by (simp add: toLowerCase_def to_lower_char_def)

lemma model_students: "model_name ''students'' = ''Student''"
  by code_simp

text \<open>
  Claim C7 as stated fails on the insert of \<^verbatim>\<open>POST /api/mcp/execute\<close>: on the table
  \<^verbatim>\<open>students\<close>, which has no typed path, with data that has the one column
  \<^verbatim>\<open>code\<close>, the statement lists the columns \<^verbatim>\<open>createdAt\<close> and \<^verbatim>\<open>updatedAt\<close> as
  well, with the value \<^verbatim>\<open>NOW()\<close>.
\<close>

theorem rest_insert_defaults_counterexample:
  "execute_insert ''2024-01-01T00:00:00.000Z'' (Some (JStr ''students''))
     (Some (JObj [(''code'', JStr ''MATH101'')])) =
   Inr (QueryRawUnsafe
          (sql (''INSERT INTO students (code, '' @ [CHR 0x22] @ ''createdAt'' @ [CHR 0x22] @ '', ''
                @ [CHR 0x22] @ ''updatedAt'' @ [CHR 0x22]
                @ '') VALUES ($1, NOW(), NOW()) RETURNING *''))
          [JStr ''MATH101''])"
  by (simp add: execute_insert_def truthy_def lower_students model_students lift500_def
      placeholders_def enumerate_eq_zip show_nat_digit digit_char_def)

lemma handle_insert_fast:
  assumes t: "table = Some (JStr ''subjects'')"
  shows "\<exists>created. handleCrudOperation db now (Some (JStr ''insert'')) table (Some (JObj d)) wh =
                  db (SubjectCreate created)
         \<and> (map_of d ''createdAt'' = None \<longrightarrow> map_of created ''createdAt'' = Some (VDate now))
         \<and> (map_of d ''updatedAt'' = None \<longrightarrow> map_of created ''updatedAt'' = Some (VDate now))
         \<and> (\<forall>k. k \<noteq> ''createdAt'' \<and> k \<noteq> ''updatedAt'' \<longrightarrow>
               map_of created k = map_option of_json (map_of d k))"
proof -
  let ?created = "obj_set (obj_set (spread (Some (JObj d))) ''createdAt''
                   (default_date now (map_of d ''createdAt'')))
                   ''updatedAt'' (default_date now (map_of d ''updatedAt''))"
  have call: "handleCrudOperation db now (Some (JStr ''insert'')) table (Some (JObj d)) wh =
      db (SubjectCreate ?created)"
    using t by (simp add: handleCrudOperation_def request_insert crud_insert_def)
  have c: "map_of d ''createdAt'' = None \<longrightarrow> map_of ?created ''createdAt'' = Some (VDate now)"
    by (simp add: map_of_obj_set default_date_absent)
  have u: "map_of d ''updatedAt'' = None \<longrightarrow> map_of ?created ''updatedAt'' = Some (VDate now)"
    by (simp add: map_of_obj_set default_date_absent)
  have r: "\<forall>k. k \<noteq> ''createdAt'' \<and> k \<noteq> ''updatedAt'' \<longrightarrow>
             map_of ?created k = map_option of_json (map_of d k)"
    by (simp add: map_of_obj_set map_of_spread_obj)
  show ?thesis
    by (rule exI [of _ ?created]) (rule conjI [OF call conjI [OF c conjI [OF u r]]])
qed

lemma handle_insert_generic:
  assumes "table \<noteq> Some (JStr ''subjects'')"
  shows "handleCrudOperation db now (Some (JStr ''insert'')) table (Some (JObj d)) wh =
        db (QueryRawUnsafe
              (sql (''INSERT INTO '' @ js_string table @ '' ('' @ join '', '' (map fst d)
                    @ '') VALUES ('' @ join '', '' (placeholders (map fst d)) @ '') RETURNING *''))
              (map snd d))"
  using assms by (simp add: handleCrudOperation_def request_insert crud_insert_def)

lemma rest_insert_generic:
  assumes "t \<noteq> []" and "model_name (toLowerCase t) \<noteq> ''Subject''"
  shows "execute_insert now (Some (JStr t)) (Some (JObj d)) =
        Inr (QueryRawUnsafe
               (sql (''INSERT INTO '' @ toLowerCase t @ '' ('' @ join '', '' (map fst d)
                     @ (if \<not> truthy (map_of d ''createdAt'')
                        then '', '' @ [CHR 0x22] @ ''createdAt'' @ [CHR 0x22] else [])
                     @ (if \<not> truthy (map_of d ''updatedAt'')
                        then '', '' @ [CHR 0x22] @ ''updatedAt'' @ [CHR 0x22] else [])
                     @ '') VALUES ('' @ join '', '' (placeholders (map fst d))
                     @ (if \<not> truthy (map_of d ''createdAt'') then '', NOW()'' else [])
                     @ (if \<not> truthy (map_of d ''updatedAt'') then '', NOW()'' else [])
                     @ '') RETURNING *''))
               (map snd d))"
proof -
  have "truthy (Some (JStr t))" using assms(1) by (simp add: truthy_def)
  with assms(2) show ?thesis
    by (simp add: execute_insert_def lift500_def Let_def)
qed

text \<open>
  Claim C7, amended.  An insert whose data is an object, handled by
  \<^verbatim>\<open>handleCrudOperation\<close> (the tool \<^verbatim>\<open>execute_crud\<close> of both JSON-RPC handlers and
  \<^verbatim>\<open>/api/langflow/crud\<close>): on the table \<^verbatim>\<open>subjects\<close>, the one table with a typed
  path, the row created has \<^verbatim>\<open>createdAt\<close> and \<^verbatim>\<open>updatedAt\<close> set to the current time
  when the data does not have them, and the other columns as given; on any other table
  the statement lists the columns of the data and nothing else, binds their values, ends
  in \<^verbatim>\<open>RETURNING *\<close>, and the answer of the database client is returned.  The insert of
  \<^verbatim>\<open>POST /api/mcp/execute\<close> on a table whose model name is not \<^verbatim>\<open>Subject\<close> is
  different: after the columns of the data it lists \<^verbatim>\<open>createdAt\<close> and
  \<^verbatim>\<open>updatedAt\<close>, each with the value \<^verbatim>\<open>NOW()\<close>, when the data has no truthy value
  for them.
\<close>

theorem insert_defaults_only_on_fast_path:
  "(table = Some (JStr ''subjects'') \<longrightarrow>
      (\<exists>created. handleCrudOperation db now (Some (JStr ''insert'')) table (Some (JObj d)) wh =
                  db (SubjectCreate created)
         \<and> (map_of d ''createdAt'' = None \<longrightarrow> map_of created ''createdAt'' = Some (VDate now))
         \<and> (map_of d ''updatedAt'' = None \<longrightarrow> map_of created ''updatedAt'' = Some (VDate now))
         \<and> (\<forall>k. k \<noteq> ''createdAt'' \<and> k \<noteq> ''updatedAt'' \<longrightarrow>
               map_of created k = map_option of_json (map_of d k))))
   \<and> (table \<noteq> Some (JStr ''subjects'') \<longrightarrow>
      handleCrudOperation db now (Some (JStr ''insert'')) table (Some (JObj d)) wh =
        db (QueryRawUnsafe
              (sql (''INSERT INTO '' @ js_string table @ '' ('' @ join '', '' (map fst d)
                    @ '') VALUES ('' @ join '', '' (placeholders (map fst d)) @ '') RETURNING *''))
              (map snd d)))
   \<and> (t \<noteq> [] \<and> model_name (toLowerCase t) \<noteq> ''Subject'' \<longrightarrow>
      execute_insert now (Some (JStr t)) (Some (JObj d)) =
        Inr (QueryRawUnsafe
               (sql (''INSERT INTO '' @ toLowerCase t @ '' ('' @ join '', '' (map fst d)
                     @ (if \<not> truthy (map_of d ''createdAt'')
                        then '', '' @ [CHR 0x22] @ ''createdAt'' @ [CHR 0x22] else [])
                     @ (if \<not> truthy (map_of d ''updatedAt'')
                        then '', '' @ [CHR 0x22] @ ''updatedAt'' @ [CHR 0x22] else [])
                     @ '') VALUES ('' @ join '', '' (placeholders (map fst d))
                     @ (if \<not> truthy (map_of d ''createdAt'') then '', NOW()'' else [])
                     @ (if \<not> truthy (map_of d ''updatedAt'') then '', NOW()'' else [])
                     @ '') RETURNING *''))
               (map snd d)))"
proof (intro conjI impI)
  assume "table = Some (JStr ''subjects'')"
  then show "\<exists>created. handleCrudOperation db now (Some (JStr ''insert'')) table (Some (JObj d)) wh =
                  db (SubjectCreate created)
         \<and> (map_of d ''createdAt'' = None \<longrightarrow> map_of created ''createdAt'' = Some (VDate now))
         \<and> (map_of d ''updatedAt'' = None \<longrightarrow> map_of created ''updatedAt'' = Some (VDate now))
         \<and> (\<forall>k. k \<noteq> ''createdAt'' \<and> k \<noteq> ''updatedAt'' \<longrightarrow>
               map_of created k = map_option of_json (map_of d k))"
    by (rule handle_insert_fast)
next
  assume "table \<noteq> Some (JStr ''subjects'')"
  then show "handleCrudOperation db now (Some (JStr ''insert'')) table (Some (JObj d)) wh =
        db (QueryRawUnsafe
              (sql (''INSERT INTO '' @ js_string table @ '' ('' @ join '', '' (map fst d)
                    @ '') VALUES ('' @ join '', '' (placeholders (map fst d)) @ '') RETURNING *''))
              (map snd d))"
    by (rule handle_insert_generic)
next
  assume "t \<noteq> [] \<and> model_name (toLowerCase t) \<noteq> ''Subject''"
  then have "t \<noteq> []" and "model_name (toLowerCase t) \<noteq> ''Subject''" by simp_all
  then show "execute_insert now (Some (JStr t)) (Some (JObj d)) =
        Inr (QueryRawUnsafe
               (sql (''INSERT INTO '' @ toLowerCase t @ '' ('' @ join '', '' (map fst d)
                     @ (if \<not> truthy (map_of d ''createdAt'')
                        then '', '' @ [CHR 0x22] @ ''createdAt'' @ [CHR 0x22] else [])
                     @ (if \<not> truthy (map_of d ''updatedAt'')
                        then '', '' @ [CHR 0x22] @ ''updatedAt'' @ [CHR 0x22] else [])
                     @ '') VALUES ('' @ join '', '' (placeholders (map fst d))
                     @ (if \<not> truthy (map_of d ''createdAt'') then '', NOW()'' else [])
                     @ (if \<not> truthy (map_of d ''updatedAt'') then '', NOW()'' else [])
                     @ '') RETURNING *''))
               (map snd d))"
    by (rule rest_insert_generic)
qed

theorem insert_defaults_only_on_fast_path_witness:
  "Some (JStr ''students'') \<noteq> Some (JStr ''subjects'')
   \<and> handleCrudOperation (\<lambda>c. case c of QueryRawUnsafe q vs \<Rightarrow> Inr (VArr (map of_json vs))
                               | _ \<Rightarrow> Inl (Error ''no model''))
       ''2024-01-01T00:00:00.000Z'' (Some (JStr ''insert'')) (Some (JStr ''students''))
       (Some (JObj [(''code'', JStr ''MATH101''), (''name'', JStr ''Mathematics I'')])) None =
     Inr (VArr [VStr ''MATH101'', VStr ''Mathematics I''])
   \<and> (\<exists>created. handleCrudOperation (\<lambda>c. case c of SubjectCreate r \<Rightarrow> Inr (VObj r)
                                          | _ \<Rightarrow> Inl (Error ''no model''))
         ''2024-01-01T00:00:00.000Z'' (Some (JStr ''insert'')) (Some (JStr ''subjects''))
         (Some (JObj [(''code'', JStr ''MATH101'')])) None = Inr (VObj created)
       \<and> map_of created ''createdAt'' = Some (VDate ''2024-01-01T00:00:00.000Z'')
       \<and> map_of created ''updatedAt'' = Some (VDate ''2024-01-01T00:00:00.000Z'')
       \<and> map_of created ''code'' = Some (VStr ''MATH101''))
   \<and> execute_insert ''2024-01-01T00:00:00.000Z'' (Some (JStr ''Students''))
        (Some (JObj [(''createdAt'', JStr ''2020-01-01''), (''code'', JStr ''MATH101'')])) =
      Inr (QueryRawUnsafe
             (sql (''INSERT INTO students (createdAt, code, '' @ [CHR 0x22] @ ''updatedAt''
                   @ [CHR 0x22] @ '') VALUES ($1, $2, NOW()) RETURNING *''))
             [JStr ''2020-01-01'', JStr ''MATH101''])"
proof -
  have h: "Some (JStr ''students'') \<noteq> Some (JStr ''subjects'')" by simp
  from insert_defaults_only_on_fast_path [of "Some (JStr ''students'')"
      "\<lambda>c. case c of QueryRawUnsafe q vs \<Rightarrow> Inr (VArr (map of_json vs))
           | _ \<Rightarrow> Inl (Error ''no model'')"
      "''2024-01-01T00:00:00.000Z''"
      "[(''code'', JStr ''MATH101''), (''name'', JStr ''Mathematics I'')]" None,
      THEN conjunct2, THEN conjunct1, THEN mp, OF h]
  have a: "handleCrudOperation (\<lambda>c. case c of QueryRawUnsafe q vs \<Rightarrow> Inr (VArr (map of_json vs))
                               | _ \<Rightarrow> Inl (Error ''no model''))
       ''2024-01-01T00:00:00.000Z'' (Some (JStr ''insert'')) (Some (JStr ''students''))
       (Some (JObj [(''code'', JStr ''MATH101''), (''name'', JStr ''Mathematics I'')])) None =
     Inr (VArr [VStr ''MATH101'', VStr ''Mathematics I''])"
    by simp
  from insert_defaults_only_on_fast_path [of "Some (JStr ''subjects'')"
      "\<lambda>c. case c of SubjectCreate r \<Rightarrow> Inr (VObj r) | _ \<Rightarrow> Inl (Error ''no model'')"
      "''2024-01-01T00:00:00.000Z''" "[(''code'', JStr ''MATH101'')]" None,
      THEN conjunct1, THEN mp, OF refl]
  obtain created where
    r1: "handleCrudOperation (\<lambda>c. case c of SubjectCreate r \<Rightarrow> Inr (VObj r)
                                 | _ \<Rightarrow> Inl (Error ''no model''))
         ''2024-01-01T00:00:00.000Z'' (Some (JStr ''insert'')) (Some (JStr ''subjects''))
         (Some (JObj [(''code'', JStr ''MATH101'')])) None = Inr (VObj created)"
    and r2: "map_of created ''createdAt'' = Some (VDate ''2024-01-01T00:00:00.000Z'')"
    and r3: "map_of created ''updatedAt'' = Some (VDate ''2024-01-01T00:00:00.000Z'')"
    and r4: "\<forall>k. k \<noteq> ''createdAt'' \<and> k \<noteq> ''updatedAt'' \<longrightarrow>
               map_of created k = map_option of_json (map_of [(''code'', JStr ''MATH101'')] k)"
    by auto
  from r4 [THEN spec, of "''code''"] have r5: "map_of created ''code'' = Some (VStr ''MATH101'')"
    by simp
  have b: "\<exists>created. handleCrudOperation (\<lambda>c. case c of SubjectCreate r \<Rightarrow> Inr (VObj r)
                                          | _ \<Rightarrow> Inl (Error ''no model''))
         ''2024-01-01T00:00:00.000Z'' (Some (JStr ''insert'')) (Some (JStr ''subjects''))
         (Some (JObj [(''code'', JStr ''MATH101'')])) None = Inr (VObj created)
       \<and> map_of created ''createdAt'' = Some (VDate ''2024-01-01T00:00:00.000Z'')
       \<and> map_of created ''updatedAt'' = Some (VDate ''2024-01-01T00:00:00.000Z'')
       \<and> map_of created ''code'' = Some (VStr ''MATH101'')"
    by (rule exI [of _ created]) (rule conjI [OF r1 conjI [OF r2 conjI [OF r3 r5]]])
  have l: "toLowerCase ''Students'' = ''students''"
    by code_simp
  have g: "''Students'' \<noteq> [] \<and> model_name (toLowerCase ''Students'') \<noteq> ''Subject''"
    by (simp add: l model_students)
  from insert_defaults_only_on_fast_path [of _ _ "''2024-01-01T00:00:00.000Z''"
      "[(''createdAt'', JStr ''2020-01-01''), (''code'', JStr ''MATH101'')]" _ "''Students''",
      THEN conjunct2, THEN conjunct2, THEN mp, OF g]
  have c: "execute_insert ''2024-01-01T00:00:00.000Z'' (Some (JStr ''Students''))
        (Some (JObj [(''createdAt'', JStr ''2020-01-01''), (''code'', JStr ''MATH101'')])) =
      Inr (QueryRawUnsafe
             (sql (''INSERT INTO students (createdAt, code, '' @ [CHR 0x22] @ ''updatedAt''
                   @ [CHR 0x22] @ '') VALUES ($1, $2, NOW()) RETURNING *''))
             [JStr ''2020-01-01'', JStr ''MATH101''])"
    by (simp add: l truthy_def placeholders_def enumerate_eq_zip show_nat_digit digit_char_def
        upt_rec)
  from h a b c show ?thesis by (intro conjI)
qed

subsection \<open>The result serializer\<close>

lemma collect_Inr:
  "collect rs = Inr xs \<Longrightarrow> length xs = length rs \<and> (\<forall>i<length rs. rs ! i = Inr (xs ! i))"
proof (induction rs arbitrary: xs)
  case Nil
  then show ?case by simp
next
  case (Cons r rs)
  from Cons.prems obtain x ys where r: "r = Inr x" and ys: "collect rs = Inr ys"
    and xs: "xs = x # ys"
    by (auto split: sum.splits)
  from Cons.IH [OF ys] have len: "length ys = length rs"
    and nth: "\<forall>i<length rs. rs ! i = Inr (ys ! i)" by simp_all
  show ?case
  proof (intro conjI allI impI)
    show "length xs = length (r # rs)" using xs len by simp
  next
    fix i assume "i < length (r # rs)"
    then show "(r # rs) ! i = Inr (xs ! i)"
      using r xs nth by (cases i) simp_all
  qed
qed

lemma collect_all_Inr: "(\<forall>r \<in> set rs. \<exists>x. r = Inr x) \<Longrightarrow> \<exists>xs. collect rs = Inr xs"
  by (induction rs) auto

text \<open>With the replacer, \<^verbatim>\<open>JSON.stringify\<close> does not throw.\<close>

lemma stringify_total: "\<exists>j. stringify BigintToString v = Inr j"
proof (induction "BigintToString" v rule: stringify.induct)
  case (7 xs)
  then have "\<forall>r \<in> set (map (stringify BigintToString) xs). \<exists>x. r = Inr x"
    by auto
  then obtain ys where "collect (map (stringify BigintToString) xs) = Inr ys"
    using collect_all_Inr by blast
  then show ?case by simp
next
  case (8 kvs)
  have "\<forall>r \<in> set (map (\<lambda>(k, v). bind_sum (stringify BigintToString v) (\<lambda>j. Inr (k, j))) kvs).
          \<exists>x. r = Inr x"
  proof
    fix r
    assume "r \<in> set (map (\<lambda>(k, v). bind_sum (stringify BigintToString v) (\<lambda>j. Inr (k, j))) kvs)"
    then obtain k v where kv: "(k, v) \<in> set kvs"
      and r: "r = bind_sum (stringify BigintToString v) (\<lambda>j. Inr (k, j))"
      by auto
    from 8 [OF kv refl] obtain j where "stringify BigintToString v = Inr j" by blast
    with r show "\<exists>x. r = Inr x" by simp
  qed
  then obtain props where
    "collect (map (\<lambda>(k, v). bind_sum (stringify BigintToString v) (\<lambda>j. Inr (k, j))) kvs) = Inr props"
    using collect_all_Inr by blast
  then show ?case by simp
qed simp_all

lemma stringify_VArr:
  assumes "stringify rep (VArr xs) = Inr out"
  shows "\<exists>ys. out = JArr ys \<and> length ys = length xs
           \<and> (\<forall>i<length xs. stringify rep (xs ! i) = Inr (ys ! i))"
proof -
  from assms obtain ys where c: "collect (map (stringify rep) xs) = Inr ys" and o: "out = JArr ys"
    by (auto simp add: bind_sum_eq_Inr)
  from collect_Inr [OF c] have "length ys = length xs"
    and "\<forall>i<length xs. stringify rep (xs ! i) = Inr (ys ! i)"
    by simp_all
  with o show ?thesis by blast
qed

lemma stringify_VObj:
  assumes "stringify rep (VObj row) = Inr out"
  shows "\<exists>orow. out = JObj orow \<and> length orow = length row
           \<and> (\<forall>j<length row. \<exists>jv. stringify rep (snd (row ! j)) = Inr jv
                  \<and> orow ! j = (fst (row ! j), jv))"
proof -
  let ?f = "\<lambda>(k, v). bind_sum (stringify rep v) (\<lambda>j. Inr (k, j))"
  from assms obtain orow where c: "collect (map ?f row) = Inr orow" and o: "out = JObj orow"
    by (auto simp add: bind_sum_eq_Inr)
  from collect_Inr [OF c] have len: "length orow = length row"
    and nth: "\<forall>j<length row. ?f (row ! j) = Inr (orow ! j)"
    by simp_all
  have "\<forall>j<length row. \<exists>jv. stringify rep (snd (row ! j)) = Inr jv
          \<and> orow ! j = (fst (row ! j), jv)"
  proof (intro allI impI)
    fix j assume "j < length row"
    with nth have "?f (row ! j) = Inr (orow ! j)" by blast
    then show "\<exists>jv. stringify rep (snd (row ! j)) = Inr jv \<and> orow ! j = (fst (row ! j), jv)"
      by (cases "row ! j") (auto simp add: bind_sum_eq_Inr)
  qed
  with o len show ?thesis by blast
qed

lemma digit_char_digit: "d < 10 \<Longrightarrow> digit_char d \<in> set ''0123456789''"
  unfolding digit_char_def by (rule nth_mem) simp

lemma show_nat_digits: "show_nat n \<noteq> [] \<and> set (show_nat n) \<subseteq> set ''0123456789''"
proof (induction n rule: show_nat.induct)
  case (1 n)
  show ?case
  proof (cases "n < 10")
    case True
    then have "show_nat n = [digit_char n]" by (rule show_nat_digit)
    with True digit_char_digit [of n] show ?thesis by simp
  next
    case False
    then have s: "show_nat n = show_nat (n div 10) @ [digit_char (n mod 10)]"
      by (simp add: show_nat_step)
    have "n mod 10 < 10" by simp
    then have "digit_char (n mod 10) \<in> set ''0123456789''" by (rule digit_char_digit)
    with 1 [OF False] s show ?thesis by simp
  qed
qed

lemma digit_value_digit_char: "d < 10 \<Longrightarrow> digit_value (digit_char d) = d"
proof -
  assume "d < 10"
  then have "d = 0 \<or> d = 1 \<or> d = 2 \<or> d = 3 \<or> d = 4 \<or> d = 5 \<or> d = 6 \<or> d = 7 \<or> d = 8 \<or> d = 9"
    by arith
  then show ?thesis
    by (elim disjE) (simp_all add: digit_value_def digit_char_def)
qed

lemma read_nat_snoc: "read_nat (s @ [c]) = 10 * read_nat s + digit_value c"
  by (simp add: read_nat_def)

text \<open>The decimal text of a number denotes that number.\<close>

lemma read_show_nat: "read_nat (show_nat n) = n"
proof (induction n rule: show_nat.induct)
  case (1 n)
  show ?case
  proof (cases "n < 10")
    case True
    then show ?thesis
      by (simp add: show_nat_digit read_nat_def digit_value_digit_char)
  next
    case False
    then have s: "show_nat n = show_nat (n div 10) @ [digit_char (n mod 10)]"
      by (simp add: show_nat_step)
    have "digit_value (digit_char (n mod 10)) = n mod 10"
      by (rule digit_value_digit_char) simp
    with 1 [OF False] s show ?thesis
      by (simp add: read_nat_snoc)
  qed
qed

lemma show_int_max64: "show_int 9223372036854775807 = ''9223372036854775807''"
  by (simp add: show_int_def show_nat_step show_nat_digit digit_char_def)

lemma show_int_one: "show_int 1 = ''1''"
  by (simp add: show_int_def show_nat_digit digit_char_def)

lemma show_int_digits:
  "\<exists>ds. show_int n = (if n < 0 then CHR ''-'' # ds else ds) \<and> ds \<noteq> []
     \<and> set ds \<subseteq> set ''0123456789'' \<and> read_nat ds = nat \<bar>n\<bar>"
proof (cases "n < 0")
  case True
  then have e: "show_int n =
      (if n < 0 then CHR ''-'' # show_nat (nat \<bar>n\<bar>) else show_nat (nat \<bar>n\<bar>))"
    by (simp add: show_int_def)
  from show_nat_digits [of "nat \<bar>n\<bar>"] read_show_nat [of "nat \<bar>n\<bar>"]
  have d: "show_nat (nat \<bar>n\<bar>) \<noteq> [] \<and> set (show_nat (nat \<bar>n\<bar>)) \<subseteq> set ''0123456789''
      \<and> read_nat (show_nat (nat \<bar>n\<bar>)) = nat \<bar>n\<bar>"
    by (intro conjI) simp_all
  show ?thesis
    by (rule exI [of _ "show_nat (nat \<bar>n\<bar>)"]) (rule conjI [OF e d])
next
  case False
  then have e: "show_int n =
      (if n < 0 then CHR ''-'' # show_nat (nat \<bar>n\<bar>) else show_nat (nat \<bar>n\<bar>))"
    by (simp add: show_int_def)
  from show_nat_digits [of "nat \<bar>n\<bar>"] read_show_nat [of "nat \<bar>n\<bar>"]
  have d: "show_nat (nat \<bar>n\<bar>) \<noteq> [] \<and> set (show_nat (nat \<bar>n\<bar>)) \<subseteq> set ''0123456789''
      \<and> read_nat (show_nat (nat \<bar>n\<bar>)) = nat \<bar>n\<bar>"
    by (intro conjI) simp_all
  show ?thesis
    by (rule exI [of _ "show_nat (nat \<bar>n\<bar>)"]) (rule conjI [OF e d])
qed

lemma serialize_cell:
  assumes j: "j < length row" and cell: "row ! j = (c, VBigInt n)"
  shows "\<exists>orow. serialize (VObj row) = Inr (JObj orow) \<and> length orow = length row
           \<and> orow ! j = (c, JStr (show_int n))"
proof -
  obtain out where out: "stringify BigintToString (VObj row) = Inr out"
    using stringify_total by blast
  from stringify_VObj [OF out] obtain orow where o: "out = JObj orow"
    and len: "length orow = length row"
    and nth: "\<forall>j<length row. \<exists>jv. stringify BigintToString (snd (row ! j)) = Inr jv
                  \<and> orow ! j = (fst (row ! j), jv)"
    by blast
  from nth j obtain jv where "stringify BigintToString (snd (row ! j)) = Inr jv"
    and "orow ! j = (fst (row ! j), jv)" by blast
  with cell have "orow ! j = (c, JStr (show_int n))" by simp
  with out o len show ?thesis by (simp add: serialize_def)
qed

lemma serialize_rows:
  "\<exists>out. serialize (VArr rows) = Inr (JArr out) \<and> length out = length rows
     \<and> (\<forall>i<length rows. serialize (rows ! i) = Inr (out ! i))"
proof -
  obtain res where res: "stringify BigintToString (VArr rows) = Inr res"
    using stringify_total by blast
  from stringify_VArr [OF res] show ?thesis
    using res by (auto simp add: serialize_def)
qed

text \<open>
  The serializer on a large integer.  A bigint whose magnitude exceeds \<open>2\<^sup>5\<^sup>3 - 1\<close> is
  serialized as a text: the text is the decimal notation of the number, the digits of its
  magnitude after a minus sign when it is negative, and it stands in the place of the
  number in the serialized row, under the same column name and at the same position.  The
  largest signed integer of 64 bits is serialized as the text \<^verbatim>\<open>9223372036854775807\<close>.
\<close>

lemma large_integer_as_text:
  "(2 ^ 53 - 1 < \<bar>n\<bar> \<longrightarrow>
      serialize (VBigInt n) = Inr (JStr (show_int n))
      \<and> (\<exists>ds. show_int n = (if n < 0 then CHR ''-'' # ds else ds) \<and> ds \<noteq> []
             \<and> set ds \<subseteq> set ''0123456789'' \<and> read_nat ds = nat \<bar>n\<bar>)
      \<and> (\<forall>row j c. j < length row \<and> row ! j = (c, VBigInt n) \<longrightarrow>
            (\<exists>orow. serialize (VObj row) = Inr (JObj orow) \<and> length orow = length row
                \<and> orow ! j = (c, JStr (show_int n)))))
   \<and> serialize (VBigInt 9223372036854775807) = Inr (JStr ''9223372036854775807'')"
proof (intro conjI impI allI)
  show "serialize (VBigInt n) = Inr (JStr (show_int n))"
    by (simp add: serialize_def)
  show "\<exists>ds. show_int n = (if n < 0 then CHR ''-'' # ds else ds) \<and> ds \<noteq> []
             \<and> set ds \<subseteq> set ''0123456789'' \<and> read_nat ds = nat \<bar>n\<bar>"
    by (rule show_int_digits)
  show "serialize (VBigInt 9223372036854775807) = Inr (JStr ''9223372036854775807'')"
    by (simp add: serialize_def show_int_max64)
next
  fix row :: "(string \<times> jsval) list" and j c
  assume a: "j < length row \<and> row ! j = (c, VBigInt n)"
  from a have j: "j < length row" and cell: "row ! j = (c, VBigInt n)" by simp_all
  show "\<exists>orow. serialize (VObj row) = Inr (JObj orow) \<and> length orow = length row
                \<and> orow ! j = (c, JStr (show_int n))"
    by (rule serialize_cell [OF j cell])
qed

lemma large_integer_as_text_witness:
  "2 ^ 53 - 1 < \<bar>9223372036854775807 :: int\<bar>
   \<and> serialize (VBigInt 9223372036854775807) = Inr (JStr ''9223372036854775807'')
   \<and> (\<exists>orow. serialize (VObj [(''id'', VBigInt 9223372036854775807), (''name'', VStr ''x'')]) =
                 Inr (JObj orow)
          \<and> length orow = length [(''id'', VBigInt 9223372036854775807), (''name'', VStr ''x'')]
          \<and> orow ! 0 = (''id'', JStr ''9223372036854775807''))"
proof -
  have big: "2 ^ 53 - 1 < \<bar>9223372036854775807 :: int\<bar>" by simp
  have cell: "(0::nat) < length [(''id'', VBigInt 9223372036854775807), (''name'', VStr ''x'')]
      \<and> [(''id'', VBigInt 9223372036854775807), (''name'', VStr ''x'')] ! 0 =
          (''id'', VBigInt 9223372036854775807)"
    by simp
  note t = large_integer_as_text [of 9223372036854775807, THEN conjunct1, THEN mp, OF big]
  note scalar = t [THEN conjunct1]
  note row = t [THEN conjunct2, THEN conjunct2, THEN spec, THEN spec, THEN spec, THEN mp, OF cell]
  from big scalar row show ?thesis
    by (simp only: show_int_max64 simp_thms)
qed

text \<open>
  Claim C9.  The serializer turns every bigint into its decimal text, whatever its
  magnitude: the bigint 1 becomes the text \<^verbatim>\<open>1\<close>, and in a result set every cell that
  holds a bigint holds the text of that bigint after serialization, in every row.
\<close>

theorem bigint_text_regardless_of_magnitude:
  "serialize (VBigInt n) = Inr (JStr (show_int n))
   \<and> serialize (VBigInt 1) = Inr (JStr ''1'')
   \<and> (\<exists>out. serialize (VArr rows) = Inr (JArr out) \<and> length out = length rows
        \<and> (\<forall>i j row c m. i < length rows \<and> rows ! i = VObj row \<and> j < length row
               \<and> row ! j = (c, VBigInt m)
             \<longrightarrow> (\<exists>orow. out ! i = JObj orow \<and> length orow = length row
                    \<and> orow ! j = (c, JStr (show_int m)))))"
proof (intro conjI)
  show "serialize (VBigInt n) = Inr (JStr (show_int n))"
    by (simp add: serialize_def)
  show "serialize (VBigInt 1) = Inr (JStr ''1'')"
    by (simp add: serialize_def show_int_one)
  obtain out where out: "serialize (VArr rows) = Inr (JArr out)" and len: "length out = length rows"
    and nth: "\<forall>i<length rows. serialize (rows ! i) = Inr (out ! i)"
    using serialize_rows by blast
  have cells: "\<forall>i j row c m. i < length rows \<and> rows ! i = VObj row \<and> j < length row
               \<and> row ! j = (c, VBigInt m)
             \<longrightarrow> (\<exists>orow. out ! i = JObj orow \<and> length orow = length row
                    \<and> orow ! j = (c, JStr (show_int m)))"
  proof (intro allI impI)
    fix i j row c m
    assume a: "i < length rows \<and> rows ! i = VObj row \<and> j < length row \<and> row ! j = (c, VBigInt m)"
    then have r: "serialize (VObj row) = Inr (out ! i)" using nth by auto
    from a have j: "j < length row" and cell: "row ! j = (c, VBigInt m)" by simp_all
    from serialize_cell [OF j cell] obtain orow where
      "serialize (VObj row) = Inr (JObj orow)" "length orow = length row"
      "orow ! j = (c, JStr (show_int m))" by blast
    with r show "\<exists>orow. out ! i = JObj orow \<and> length orow = length row
                    \<and> orow ! j = (c, JStr (show_int m))" by force
  qed
  show "\<exists>out. serialize (VArr rows) = Inr (JArr out) \<and> length out = length rows
        \<and> (\<forall>i j row c m. i < length rows \<and> rows ! i = VObj row \<and> j < length row
               \<and> row ! j = (c, VBigInt m)
             \<longrightarrow> (\<exists>orow. out ! i = JObj orow \<and> length orow = length row
                    \<and> orow ! j = (c, JStr (show_int m))))"
    by (rule exI [of _ out]) (rule conjI [OF out conjI [OF len cells]])
qed



theorem bigint_text_regardless_of_magnitude_witness:
  "serialize (VBigInt 1) = Inr (JStr ''1'')
   \<and> (\<exists>out. serialize (VArr [VObj [(''id'', VBigInt 1), (''n'', VNum 1)]]) = Inr (JArr out)
         \<and> (\<exists>orow. out ! 0 = JObj orow \<and> orow ! 0 = (''id'', JStr ''1'')))"
proof -
  let ?rows = "[VObj [(''id'', VBigInt 1), (''n'', VNum 1)]]"
  note t = bigint_text_regardless_of_magnitude [of 1 ?rows]
  from t obtain out where out: "serialize (VArr ?rows) = Inr (JArr out)"
    and cells: "\<forall>i j row c m. i < length ?rows \<and> ?rows ! i = VObj row \<and> j < length row
               \<and> row ! j = (c, VBigInt m)
             \<longrightarrow> (\<exists>orow. out ! i = JObj orow \<and> length orow = length row
                    \<and> orow ! j = (c, JStr (show_int m)))"
    by (elim conjE exE)
  have h: "(0::nat) < length ?rows \<and> ?rows ! 0 = VObj [(''id'', VBigInt 1), (''n'', VNum 1)]
      \<and> (0::nat) < length [(''id'', VBigInt 1), (''n'', VNum 1)]
      \<and> [(''id'', VBigInt 1), (''n'', VNum 1)] ! 0 = (''id'', VBigInt 1)"
    by simp
  from cells [THEN spec, THEN spec, THEN spec, THEN spec, THEN spec, THEN mp, OF h]
  obtain orow where "out ! 0 = JObj orow" and "orow ! 0 = (''id'', JStr (show_int 1))"
    by (elim conjE exE)
  then have "\<exists>orow. out ! 0 = JObj orow \<and> orow ! 0 = (''id'', JStr ''1'')"
    by (simp add: show_int_one)
  with out have "\<exists>out. serialize (VArr ?rows) = Inr (JArr out)
         \<and> (\<exists>orow. out ! 0 = JObj orow \<and> orow ! 0 = (''id'', JStr ''1''))"
    by (intro exI [of _ out] conjI)
  with t [THEN conjunct2, THEN conjunct1] show ?thesis
    by (intro conjI)
qed

text \<open>
  Without the replacer a bigint makes \<^verbatim>\<open>JSON.stringify\<close> throw: in the handler of the
  standard input only the result of \<^verbatim>\<open>query_database\<close> passes through the serializer
  before it is encoded.
\<close>

lemma bigint_without_replacer:
  "stringify NoReplacer (VArr [VObj [(''id'', VBigInt 1)]]) = Inl TypeError"
  by simp

text \<open>
  Claim C4.  The claim is about every result row, and the rows of \<^verbatim>\<open>execute_crud\<close>,
  \<^verbatim>\<open>get_schema\<close> and \<^verbatim>\<open>list_tables\<close> do not pass through the serializer in the
  handlers of \<^verbatim>\<open>tools/call\<close>.  A select through \<^verbatim>\<open>execute_crud\<close> on a table whose
  row holds the 64-bit integer 9223372036854775807 is answered with the error code -32603
  and no row, where the same row is answered by \<^verbatim>\<open>query_database\<close> with the text
  \<^verbatim>\<open>9223372036854775807\<close> in the place of the integer.
\<close>

theorem bigint_row_without_serializer:
  "on_data (\<lambda>c. Inr (VArr [VObj [(''last_value'', VBigInt 9223372036854775807)]])) now
     (Some (JObj [(''jsonrpc'', JStr ''2.0''), (''id'', JNum 1), (''method'', JStr ''tools/call''),
        (''params'', JObj [(''name'', JStr ''execute_crud''),
           (''arguments'', JObj [(''operation'', JStr ''select''),
                                 (''table'', JStr ''pg_sequences'')])])])) =
     [sendError (Some (JNum 1)) (- 32603) EngineMessage]
   \<and> on_data (\<lambda>c. Inr (VArr [VObj [(''last_value'', VBigInt 9223372036854775807)]])) now
     (Some (JObj [(''jsonrpc'', JStr ''2.0''), (''id'', JNum 1), (''method'', JStr ''tools/call''),
        (''params'', JObj [(''name'', JStr ''query_database''),
           (''arguments'', JObj [(''query'', JStr ''SELECT * FROM pg_sequences'')])])])) =
     [sendResponse (Some (JNum 1))
        (ToolText (JArr [JObj [(''last_value'', JStr ''9223372036854775807'')]]))]"
  by (simp add: on_data_def handle_message_def route_def call_tool_def handleCrudOperation_def
      request_select crud_select_def where_clause_absent where_values_absent spread_params_def
      serialize_def show_int_max64 error_message_def)

text \<open>
  The handler of \<^verbatim>\<open>POST /mcp\<close> answers the \<^verbatim>\<open>execute_crud\<close> request in the same
  way.  The handler of \<^verbatim>\<open>POST /api/langflow/crud\<close> does pass the result of
  \<^verbatim>\<open>handleCrudOperation\<close> through the serializer and answers with the text.
\<close>

lemma mcp_post_bigint_row:
  "mcp_post (\<lambda>c. Inr (VArr [VObj [(''last_value'', VBigInt 9223372036854775807)]])) now
     [(''jsonrpc'', JStr ''2.0''), (''id'', JNum 1), (''method'', JStr ''tools/call''),
      (''params'', JObj [(''name'', JStr ''execute_crud''),
         (''arguments'', JObj [(''operation'', JStr ''select''),
                               (''table'', JStr ''pg_sequences'')])])] =
     [sendError (Some (JNum 1)) (- 32603) EngineMessage]"
  by (simp add: mcp_post_def route_def call_tool_def handleCrudOperation_def
      request_select crud_select_def where_clause_absent where_values_absent error_message_def)

lemma langflow_crud_bigint_row:
  "langflow_crud (\<lambda>c. Inr (VArr [VObj [(''last_value'', VBigInt 9223372036854775807)]])) now
     (Some (JStr ''select'')) (Some (JStr ''pg_sequences'')) None None =
     Inr (JArr [JObj [(''last_value'', JStr ''9223372036854775807'')]])"
  by (simp add: langflow_crud_def truthy_def lift500_def handleCrudOperation_def request_select
      crud_select_def where_clause_absent where_values_absent serialize_def show_int_max64)

text \<open>
  Without the replacer a result set with a bigint cell is not encoded, and for every
  store and every table without a typed path: when the store answers the select with rows
  and one of them holds a bigint, the response of \<^verbatim>\<open>execute_crud\<close> is the error.
\<close>

lemma collect_Inl: "collect rs = Inl e \<Longrightarrow> Inl e \<in> set rs"
  by (induction rs) (auto split: sum.splits)

lemma stringify_error: "stringify rep v = Inl e \<Longrightarrow> e = TypeError"
proof (induction rep v rule: stringify.induct)
  case (5 rep n)
  then show ?case by (cases rep) simp_all
next
  case (7 rep xs)
  from 7(2) have "collect (map (stringify rep) xs) = Inl e"
    by (cases "collect (map (stringify rep) xs)") simp_all
  from collect_Inl [OF this] obtain x where "x \<in> set xs" and "stringify rep x = Inl e"
    by auto
  then show ?case by (rule 7(1))
next
  case (8 rep kvs)
  let ?f = "\<lambda>(k, v). bind_sum (stringify rep v) (\<lambda>j. Inr (k, j))"
  from 8(2) have "collect (map ?f kvs) = Inl e"
    by (cases "collect (map ?f kvs)") simp_all
  from collect_Inl [OF this] obtain k v where kv: "(k, v) \<in> set kvs"
    and "bind_sum (stringify rep v) (\<lambda>j. Inr (k, j)) = Inl e"
    by auto
  then have "stringify rep v = Inl e"
    by (cases "stringify rep v") simp_all
  with kv show ?case by (rule 8(1) [OF _ refl])
qed simp_all

lemma stringify_bigint_cell:
  assumes "VObj row \<in> set rows" and "(c, VBigInt n) \<in> set row"
  shows "stringify NoReplacer (VArr rows) = Inl TypeError"
proof (cases "stringify NoReplacer (VArr rows)")
  case (Inl e)
  with stringify_error [OF Inl] show ?thesis by simp
next
  case (Inr out)
  from assms(1) obtain i where i: "i < length rows" and ri: "rows ! i = VObj row"
    by (auto simp add: in_set_conv_nth)
  from assms(2) obtain j where j: "j < length row" and rj: "row ! j = (c, VBigInt n)"
    by (auto simp add: in_set_conv_nth)
  from stringify_VArr [OF Inr] i ri obtain o1 where "stringify NoReplacer (VObj row) = Inr o1"
    by force
  from stringify_VObj [OF this] j rj have "\<exists>jv. stringify NoReplacer (VBigInt n) = Inr jv"
    by force
  then show ?thesis by simp
qed

lemma execute_crud_bigint_row:
  assumes "t \<noteq> JStr ''subjects''"
    and "db (QueryRawUnsafe (sql (''SELECT * FROM '' @ js_str t @ '' '')) []) = Inr (VArr rows)"
    and "VObj row \<in> set rows" and "(c, VBigInt n) \<in> set row"
  shows "on_data db now
     (Some (JObj [(''jsonrpc'', JStr ''2.0''), (''id'', rid), (''method'', JStr ''tools/call''),
        (''params'', JObj [(''name'', JStr ''execute_crud''),
           (''arguments'', JObj [(''operation'', JStr ''select''), (''table'', t)])])])) =
     [sendError (Some rid) (- 32603) EngineMessage]"
proof -
  from assms(3,4) have "stringify NoReplacer (VArr rows) = Inl TypeError"
    by (rule stringify_bigint_cell)
  with assms(1,2) show ?thesis
    by (simp add: on_data_def handle_message_def route_def call_tool_def handleCrudOperation_def
        request_select crud_select_def where_clause_absent where_values_absent js_string_def
        error_message_def)
qed

subsection \<open>The JSON-RPC handler\<close>

text \<open>
  Claim C6.  Input that is not JSON is answered with the error code -32700 and the id
  \<^verbatim>\<open>null\<close>.  A request object whose \<^verbatim>\<open>jsonrpc\<close> is not the text \<^verbatim>\<open>2.0\<close> is
  answered with the code -32600, and one whose \<^verbatim>\<open>jsonrpc\<close> is \<^verbatim>\<open>2.0\<close> and
  whose method is none of \<^verbatim>\<open>initialize\<close>, \<^verbatim>\<open>tools/list\<close> and \<^verbatim>\<open>tools/call\<close> with the
  code -32601, both with the id of the request.
\<close>

theorem error_codes:
  "on_data db now None = [sendError (Some JNull) (- 32700) (Text ''Parse error'')]
   \<and> (map_of kvs ''jsonrpc'' \<noteq> Some (JStr ''2.0'') \<longrightarrow>
        on_data db now (Some (JObj kvs)) =
          [sendError (map_of kvs ''id'') (- 32600) (Text ''Invalid Request'')])
   \<and> (map_of kvs ''jsonrpc'' = Some (JStr ''2.0'')
        \<and> map_of kvs ''method'' \<noteq> Some (JStr ''initialize'')
        \<and> map_of kvs ''method'' \<noteq> Some (JStr ''tools/list'')
        \<and> map_of kvs ''method'' \<noteq> Some (JStr ''tools/call'') \<longrightarrow>
        on_data db now (Some (JObj kvs)) =
          [sendError (map_of kvs ''id'') (- 32601) (Text ''Method not found'')])
   \<and> resp_id (sendError rid code msg) = rid
   \<and> resp_error (sendError rid code msg) = Some (code, msg)
   \<and> resp_result (sendError rid code msg) = None"
  by (simp add: on_data_def handle_message_def route_def sendError_def)

theorem error_codes_witness:
  "map_of [(''jsonrpc'', JStr ''1.0''), (''id'', JNum 3), (''method'', JStr ''initialize'')]
      ''jsonrpc'' \<noteq> Some (JStr ''2.0'')
   \<and> on_data (\<lambda>c. Inr VNull) ''2024-01-01T00:00:00.000Z''
        (Some (JObj [(''jsonrpc'', JStr ''1.0''), (''id'', JNum 3), (''method'', JStr ''initialize'')])) =
       [sendError (Some (JNum 3)) (- 32600) (Text ''Invalid Request'')]
   \<and> on_data (\<lambda>c. Inr VNull) ''2024-01-01T00:00:00.000Z''
        (Some (JObj [(''jsonrpc'', JStr ''2.0''), (''id'', JStr ''a''), (''method'', JStr ''ping'')])) =
       [sendError (Some (JStr ''a'')) (- 32601) (Text ''Method not found'')]"
proof -
  have h: "map_of [(''jsonrpc'', JStr ''1.0''), (''id'', JNum 3), (''method'', JStr ''initialize'')]
      ''jsonrpc'' \<noteq> Some (JStr ''2.0'')"
    by simp
  from error_codes [of "\<lambda>c. Inr VNull" "''2024-01-01T00:00:00.000Z''"
      "[(''jsonrpc'', JStr ''1.0''), (''id'', JNum 3), (''method'', JStr ''initialize'')]",
      THEN conjunct2, THEN conjunct1, THEN mp, OF h]
  have a: "on_data (\<lambda>c. Inr VNull) ''2024-01-01T00:00:00.000Z''
        (Some (JObj [(''jsonrpc'', JStr ''1.0''), (''id'', JNum 3), (''method'', JStr ''initialize'')])) =
       [sendError (Some (JNum 3)) (- 32600) (Text ''Invalid Request'')]"
    by simp
  have m: "map_of [(''jsonrpc'', JStr ''2.0''), (''id'', JStr ''a''), (''method'', JStr ''ping'')]
      ''jsonrpc'' = Some (JStr ''2.0'')
    \<and> map_of [(''jsonrpc'', JStr ''2.0''), (''id'', JStr ''a''), (''method'', JStr ''ping'')]
      ''method'' \<noteq> Some (JStr ''initialize'')
    \<and> map_of [(''jsonrpc'', JStr ''2.0''), (''id'', JStr ''a''), (''method'', JStr ''ping'')]
      ''method'' \<noteq> Some (JStr ''tools/list'')
    \<and> map_of [(''jsonrpc'', JStr ''2.0''), (''id'', JStr ''a''), (''method'', JStr ''ping'')]
      ''method'' \<noteq> Some (JStr ''tools/call'')"
    by simp
  from error_codes [of "\<lambda>c. Inr VNull" "''2024-01-01T00:00:00.000Z''"
      "[(''jsonrpc'', JStr ''2.0''), (''id'', JStr ''a''), (''method'', JStr ''ping'')]",
      THEN conjunct2, THEN conjunct2, THEN conjunct1, THEN mp, OF m]
  have b: "on_data (\<lambda>c. Inr VNull) ''2024-01-01T00:00:00.000Z''
        (Some (JObj [(''jsonrpc'', JStr ''2.0''), (''id'', JStr ''a''), (''method'', JStr ''ping'')])) =
       [sendError (Some (JStr ''a'')) (- 32601) (Text ''Method not found'')]"
    by simp
  from h a b show ?thesis by (intro conjI)
qed

text \<open>
  Claim C5.  The claim asks for the id of the request in every response.  A
  \<^verbatim>\<open>tools/call\<close> request without \<^verbatim>\<open>params\<close> is well-formed JSON with the id 7; the
  read of the properties of \<^verbatim>\<open>message.params\<close> throws, the outer \<^verbatim>\<open>catch\<close> takes
  the exception for a parse error, and the one response written has the code -32700 and
  the id \<^verbatim>\<open>null\<close> in place of 7.
\<close>

theorem tools_call_without_params:
  "on_data db now
     (Some (JObj [(''jsonrpc'', JStr ''2.0''), (''id'', JNum 7), (''method'', JStr ''tools/call'')])) =
   [sendError (Some JNull) (- 32700) (Text ''Parse error'')]
   \<and> resp_id (sendError (Some JNull) (- 32700) (Text ''Parse error'')) \<noteq> Some (JNum 7)"
  by (simp add: on_data_def handle_message_def route_def sendError_def get_prop_def)

text \<open>
  The handler of \<^verbatim>\<open>POST /mcp\<close> answers the same request with its id.
\<close>

lemma mcp_post_echoes_id:
  "mcp_post db now [(''jsonrpc'', JStr ''2.0''), (''id'', JNum 7), (''method'', JStr ''tools/call'')] =
   [sendError (Some (JNum 7)) (- 32603) (Text ''Internal error'')]"
  by (simp add: mcp_post_def route_def get_prop_def)

text \<open>
  The other parts of the claim hold: one response is written for every input, it has
  either a result or an error, and it has the id of the request unless it is the response
  of the outer \<^verbatim>\<open>catch\<close>.
\<close>

lemma tool_outcome_single:
  "(case outcome of Inr encoded \<Rightarrow> Inr [sendResponse rid (ToolText encoded)]
     | Inl err \<Rightarrow> Inr [sendError rid (- 32603) (error_message err)]) = Inr written
   \<Longrightarrow> \<exists>r. written = [r] \<and> resp_id r = rid \<and> (resp_result r = None) \<noteq> (resp_error r = None)"
  by (cases outcome) (auto simp add: sendError_def sendResponse_def)

lemma message_reads:
  assumes "message \<noteq> JNull"
  shows "\<exists>jsonrpc rid method params.
           get_prop (Some message) ''jsonrpc'' = Inr jsonrpc
         \<and> get_prop (Some message) ''id'' = Inr rid
         \<and> get_prop (Some message) ''method'' = Inr method
         \<and> get_prop (Some message) ''params'' = Inr params"
  using assms by (cases message) (simp_all add: get_prop_def)

lemma handle_message_null: "handle_message db now JNull = Inl TypeError"
  by (simp add: handle_message_def get_prop_def)

lemma handle_message_single:
  assumes "handle_message db now message = Inr written"
  shows "\<exists>r. written = [r] \<and> get_prop (Some message) ''id'' = Inr (resp_id r)
           \<and> (resp_result r = None) \<noteq> (resp_error r = None)"
proof -
  from assms have "message \<noteq> JNull"
    using handle_message_null by auto
  from message_reads [OF this] obtain tag rid meth pars where
    j: "get_prop (Some message) ''jsonrpc'' = Inr tag"
    and rid: "get_prop (Some message) ''id'' = Inr rid"
    and m: "get_prop (Some message) ''method'' = Inr meth"
    and p: "get_prop (Some message) ''params'' = Inr pars"
    by blast
  have "\<exists>r. written = [r] \<and> resp_id r = rid \<and> (resp_result r = None) \<noteq> (resp_error r = None)"
  proof (cases "tag = Some (JStr ''2.0'') \<and> meth \<noteq> Some (JStr ''initialize'')
      \<and> meth \<noteq> Some (JStr ''tools/list'') \<and> meth = Some (JStr ''tools/call'')")
    case True
    with assms j rid m p have
      "bind_sum (get_prop pars ''name'') (\<lambda>name.
       bind_sum (get_prop pars ''arguments'') (\<lambda>args.
       (case bind_sum (call_tool db now name args) (stringify NoReplacer) of
          Inr encoded \<Rightarrow> Inr [sendResponse rid (ToolText encoded)]
        | Inl err \<Rightarrow> Inr [sendError rid (- 32603) (error_message err)]))) = Inr written"
      by (simp add: handle_message_def route_def)
    then show ?thesis
    proof (rule bind_sum_InrE)
      fix name
      assume "bind_sum (get_prop pars ''arguments'') (\<lambda>args.
       (case bind_sum (call_tool db now name args) (stringify NoReplacer) of
          Inr encoded \<Rightarrow> Inr [sendResponse rid (ToolText encoded)]
        | Inl err \<Rightarrow> Inr [sendError rid (- 32603) (error_message err)])) = Inr written"
      then show ?thesis
      proof (rule bind_sum_InrE)
        fix args
        assume "(case bind_sum (call_tool db now name args) (stringify NoReplacer) of
          Inr encoded \<Rightarrow> Inr [sendResponse rid (ToolText encoded)]
        | Inl err \<Rightarrow> Inr [sendError rid (- 32603) (error_message err)]) = Inr written"
        then show ?thesis by (rule tool_outcome_single)
      qed
    qed
  next
    case False
    with assms j rid m p have
      "written = [sendError rid (- 32600) (Text ''Invalid Request'')]
       \<or> written = [sendResponse rid (Plain initialize_result)]
       \<or> written = [sendResponse rid (Plain tools_list_result)]
       \<or> written = [sendError rid (- 32601) (Text ''Method not found'')]"
      by (auto simp add: handle_message_def route_def split: if_splits)
    then show ?thesis
      by (auto simp add: sendError_def sendResponse_def)
  qed
  with rid show ?thesis by auto
qed

lemma one_response:
  "\<exists>r. on_data db now parsed = [r] \<and> (resp_result r = None) \<noteq> (resp_error r = None)"
proof (cases parsed)
  case None
  then show ?thesis by (simp add: on_data_def sendError_def)
next
  case (Some message)
  show ?thesis
  proof (cases "handle_message db now message")
    case (Inl e)
    with Some show ?thesis by (simp add: on_data_def sendError_def)
  next
    case (Inr written)
    from handle_message_single [OF Inr] Some Inr show ?thesis
      by (auto simp add: on_data_def)
  qed
qed

lemma id_echoed_unless_parse_error:
  assumes "on_data db now (Some message) = [r]"
    and "resp_error r \<noteq> Some (- 32700, Text ''Parse error'')"
  shows "get_prop (Some message) ''id'' = Inr (resp_id r)"
proof (cases "handle_message db now message")
  case (Inl e)
  with assms(1) have "r = sendError (Some JNull) (- 32700) (Text ''Parse error'')"
    by (simp add: on_data_def)
  with assms(2) show ?thesis by (simp add: sendError_def)
next
  case (Inr written)
  from handle_message_single [OF Inr] assms(1) Inr show ?thesis
    by (auto simp add: on_data_def)
qed

subsection \<open>Listing the tables\<close>

lemma squeeze_tables: "squeeze False schema_tables_sql = squeeze False list_tables_sql"
  by (simp add: schema_tables_sql_def list_tables_sql_def template_def tables_lines_def
      eval_nat_numeral)

lemma plain_schema_tables: "plain schema_tables_sql"
  by (simp add: schema_tables_sql_def template_def tables_lines_def plain_def plain_char_def
      eval_nat_numeral)

lemma plain_list_tables: "plain list_tables_sql"
  by (simp add: list_tables_sql_def template_def tables_lines_def plain_def plain_char_def
      eval_nat_numeral)

text \<open>The two statements are not the same text: they differ in their indentation.\<close>

lemma tables_statements_differ: "schema_tables_sql \<noteq> list_tables_sql"
proof
  assume "schema_tables_sql = list_tables_sql"
  then have "length schema_tables_sql = length list_tables_sql" by simp
  then show False
    by (simp add: schema_tables_sql_def list_tables_sql_def template_def tables_lines_def)
qed

text \<open>The statement of both tools, with its indentation shortened to one blank.\<close>

lemma squeeze_list_tables:
  "squeeze False list_tables_sql =
     [CHR 0x0A] @ '' SELECT table_name'' @ [CHR 0x0A] @ '' FROM information_schema.tables''
     @ [CHR 0x0A] @ '' WHERE table_schema = 'public' AND table_type = 'BASE TABLE''
     @ [CHR 0x27, CHR 0x0A] @ '' ORDER BY table_name'' @ [CHR 0x0A] @ '' ''"
  by (simp add: list_tables_sql_def template_def tables_lines_def eval_nat_numeral)

text \<open>
  Claim C8 as stated fails when \<^verbatim>\<open>get_schema\<close> is called without arguments: the read
  of \<^verbatim>\<open>args.table\<close> throws and the request is answered with the error code -32603,
  where \<^verbatim>\<open>list_tables\<close>, which does not read its arguments, is answered with the
  tables.
\<close>

theorem get_schema_without_arguments_counterexample:
  "on_data (\<lambda>c. Inr (VArr [VObj [(''table_name'', VStr ''students'')]]))
     ''2024-01-01T00:00:00.000Z''
     (Some (JObj [(''jsonrpc'', JStr ''2.0''), (''id'', JNum 1), (''method'', JStr ''tools/call''),
        (''params'', JObj [(''name'', JStr ''get_schema'')])])) =
     [sendError (Some (JNum 1)) (- 32603) EngineMessage]
   \<and> on_data (\<lambda>c. Inr (VArr [VObj [(''table_name'', VStr ''students'')]]))
     ''2024-01-01T00:00:00.000Z''
     (Some (JObj [(''jsonrpc'', JStr ''2.0''), (''id'', JNum 1), (''method'', JStr ''tools/call''),
        (''params'', JObj [(''name'', JStr ''list_tables'')])])) =
     [sendResponse (Some (JNum 1)) (ToolText (JArr [JObj [(''table_name'', JStr ''students'')]]))]"
  by (simp add: on_data_def handle_message_def route_def call_tool_def get_prop_def
      error_message_def)

text \<open>
  Claim C8, amended.  \<^verbatim>\<open>list_tables\<close>, and \<^verbatim>\<open>get_schema\<close> called with arguments
  whose table is absent or falsy, each send one statement without bound values and return
  the answer of the store to it as it is.  The two statements are the same query for the
  names of the base tables of the schema \<^verbatim>\<open>public\<close> in the order of the names, and
  their texts differ in the indentation only.  So the two tools return the same result,
  whatever the store holds, for a store that answers alike two plain statements that
  differ in the length of their runs of blanks only.
\<close>

theorem list_tables_is_get_schema:
  assumes table: "get_prop args ''table'' = Inr t"
    and absent: "\<not> truthy t"
  shows "call_tool db now (Some (JStr ''list_tables'')) args' =
           db (QueryRawUnsafe (sql list_tables_sql) [])
       \<and> call_tool db now (Some (JStr ''get_schema'')) args =
           db (QueryRawUnsafe (sql schema_tables_sql) [])
       \<and> plain list_tables_sql \<and> plain schema_tables_sql
       \<and> squeeze False schema_tables_sql = squeeze False list_tables_sql
       \<and> squeeze False list_tables_sql =
           [CHR 0x0A] @ '' SELECT table_name'' @ [CHR 0x0A] @ '' FROM information_schema.tables''
           @ [CHR 0x0A] @ '' WHERE table_schema = 'public' AND table_type = 'BASE TABLE''
           @ [CHR 0x27, CHR 0x0A] @ '' ORDER BY table_name'' @ [CHR 0x0A] @ '' ''
       \<and> (layout_blind db \<longrightarrow>
            call_tool db now (Some (JStr ''list_tables'')) args' =
            call_tool db now (Some (JStr ''get_schema'')) args)"
proof -
  have l: "call_tool db now (Some (JStr ''list_tables'')) args' =
      db (QueryRawUnsafe (sql list_tables_sql) [])"
    by (simp add: call_tool_def)
  from table absent
  have g: "call_tool db now (Some (JStr ''get_schema'')) args =
      db (QueryRawUnsafe (sql schema_tables_sql) [])"
    by (simp add: call_tool_def)
  have b: "layout_blind db \<longrightarrow>
      call_tool db now (Some (JStr ''list_tables'')) args' =
      call_tool db now (Some (JStr ''get_schema'')) args"
  proof
    assume "layout_blind db"
    with plain_schema_tables plain_list_tables squeeze_tables
    have "db (QueryRawUnsafe (sql schema_tables_sql) []) =
        db (QueryRawUnsafe (sql list_tables_sql) [])"
      unfolding layout_blind_def by blast
    with l g show "call_tool db now (Some (JStr ''list_tables'')) args' =
        call_tool db now (Some (JStr ''get_schema'')) args"
      by simp
  qed
  from l g plain_list_tables plain_schema_tables squeeze_tables squeeze_list_tables b
  show ?thesis by (intro conjI)
qed

theorem list_tables_is_get_schema_witness:
  "layout_blind (\<lambda>c. case c of
        QueryRawUnsafe (Some (JStr q)) vs \<Rightarrow> Inr (VArr [VObj [(''statement'', VStr (squeeze False q))]])
      | _ \<Rightarrow> Inl (Error ''unsupported''))
   \<and> get_prop (Some (JObj [])) ''table'' = Inr None
   \<and> \<not> truthy None
   \<and> call_tool (\<lambda>c. case c of
        QueryRawUnsafe (Some (JStr q)) vs \<Rightarrow> Inr (VArr [VObj [(''statement'', VStr (squeeze False q))]])
      | _ \<Rightarrow> Inl (Error ''unsupported''))
        ''2024-01-01T00:00:00.000Z'' (Some (JStr ''list_tables'')) None =
      Inr (VArr [VObj [(''statement'', VStr (squeeze False list_tables_sql))]])
   \<and> call_tool (\<lambda>c. case c of
        QueryRawUnsafe (Some (JStr q)) vs \<Rightarrow> Inr (VArr [VObj [(''statement'', VStr (squeeze False q))]])
      | _ \<Rightarrow> Inl (Error ''unsupported''))
        ''2024-01-01T00:00:00.000Z'' (Some (JStr ''list_tables'')) None =
      call_tool (\<lambda>c. case c of
        QueryRawUnsafe (Some (JStr q)) vs \<Rightarrow> Inr (VArr [VObj [(''statement'', VStr (squeeze False q))]])
      | _ \<Rightarrow> Inl (Error ''unsupported''))
        ''2024-01-01T00:00:00.000Z'' (Some (JStr ''get_schema'')) (Some (JObj []))"
proof -
  let ?db = "\<lambda>c. case c of
        QueryRawUnsafe (Some (JStr q)) vs \<Rightarrow> Inr (VArr [VObj [(''statement'', VStr (squeeze False q))]])
      | _ \<Rightarrow> Inl (Error ''unsupported'')"
  have b: "layout_blind ?db"
    by (simp add: layout_blind_def sql_def)
  have g: "get_prop (Some (JObj [])) ''table'' = Inr None"
    by simp
  have a: "\<not> truthy None"
    by simp
  note t = list_tables_is_get_schema [OF g a, of ?db "''2024-01-01T00:00:00.000Z''" None]
  from t [THEN conjunct1]
  have l: "call_tool ?db ''2024-01-01T00:00:00.000Z'' (Some (JStr ''list_tables'')) None =
      Inr (VArr [VObj [(''statement'', VStr (squeeze False list_tables_sql))]])"
    by (simp add: sql_def)
  have "layout_blind ?db \<longrightarrow>
      call_tool ?db ''2024-01-01T00:00:00.000Z'' (Some (JStr ''list_tables'')) None =
      call_tool ?db ''2024-01-01T00:00:00.000Z'' (Some (JStr ''get_schema'')) (Some (JObj []))"
    using t by (elim conjE)
  from this b
  have e: "call_tool ?db ''2024-01-01T00:00:00.000Z'' (Some (JStr ''list_tables'')) None =
      call_tool ?db ''2024-01-01T00:00:00.000Z'' (Some (JStr ''get_schema'')) (Some (JObj []))"
    by (rule mp)
  from b g a l e show ?thesis by (intro conjI)
qed

end
